theory Spec2Isabelle
  imports Main
begin

text \<open>
  A model of the offline-first sales application: its main component (state, sync
  pass, local mutations, connectivity handlers) with its types and constants. The
  component's handlers become functions from state to state. A state setter takes effect
  at once, and a handler sees the current state: the staleness of React closures and the
  effect that recomputes the stock alerts after a change of the products are outside
  the model, as is the rendering.
\<close>

section \<open>Data model (types.ts)\<close>

datatype SheetName = Products | Sales | Expenses | Customers

datatype QueueAction = ADD | UPDATE | DELETE

datatype NetworkStatus = ONLINE | OFFLINE | SYNCING

datatype NotificationType = NError | NWarning | NInfo | NSuccess

text \<open>
  The handlers of the component take their form data as \<^verbatim>\<open>any\<close> and build records with
  object spreads, so a record is modelled as a JavaScript object: a finite map from
  property names to values. Numbers are the integers (the doubles that are exact);
  \<open>JNaN\<close> is the result of arithmetic on a value that is not a number.
\<close>

datatype jsval = JUndefined | JNull | JBool bool | JNumber int | JNaN | JString string

type_synonym AppItem = "string \<rightharpoonup> jsval"

text \<open>Property read \<^verbatim>\<open>obj.k\<close>: a missing property reads as \<^verbatim>\<open>undefined\<close>.\<close>

definition field :: "AppItem \<Rightarrow> string \<Rightarrow> jsval" where
  "field obj k = (case obj k of None \<Rightarrow> JUndefined | Some v \<Rightarrow> v)"

fun truthy :: "jsval \<Rightarrow> bool" where
  "truthy JUndefined = False"
| "truthy JNull = False"
| "truthy (JBool b) = b"
| "truthy (JNumber n) = (n \<noteq> 0)"
| "truthy JNaN = False"
| "truthy (JString s) = (s \<noteq> [])"

text \<open>\<^verbatim>\<open>a || b\<close>\<close>

definition js_or :: "jsval \<Rightarrow> jsval \<Rightarrow> jsval" where
  "js_or a b = (if truthy a then a else b)"

text \<open>\<^verbatim>\<open>a === b\<close> on primitive values: \<^verbatim>\<open>NaN\<close> is not equal to itself.\<close>

definition strict_eq :: "jsval \<Rightarrow> jsval \<Rightarrow> bool" where
  "strict_eq a b \<longleftrightarrow> a = b \<and> a \<noteq> JNaN"

text \<open>
  What the program reads from its platform: the clock (the \<open>n\<close>-th reading taken by one
  handler), the formatted current instant, the conversion of a string to a number, and
  the identifier \<^verbatim>\<open>Date.now().toString() + Math.random().toString()\<close> drawn by the
  \<open>n\<close>-th notification.
\<close>

record runtime =
  Date_now :: "nat \<Rightarrow> int"
  toISOString :: "nat \<Rightarrow> string"
  formatDateTime :: string
  StringToNumber :: "string \<Rightarrow> int option"
  notificationId :: "nat \<Rightarrow> string"

text \<open>\<^verbatim>\<open>ToNumber\<close>: \<open>None\<close> stands for \<^verbatim>\<open>NaN\<close>.\<close>

fun ToNumber :: "runtime \<Rightarrow> jsval \<Rightarrow> int option" where
  "ToNumber rt JUndefined = None"
| "ToNumber rt JNull = Some 0"
| "ToNumber rt (JBool b) = Some (if b then 1 else 0)"
| "ToNumber rt (JNumber n) = Some n"
| "ToNumber rt JNaN = None"
| "ToNumber rt (JString s) = StringToNumber rt s"

definition number :: "int option \<Rightarrow> jsval" where
  "number r = (case r of None \<Rightarrow> JNaN | Some n \<Rightarrow> JNumber n)"

text \<open>\<^verbatim>\<open>Number(v)\<close>\<close>

definition Number :: "runtime \<Rightarrow> jsval \<Rightarrow> jsval" where
  "Number rt v = number (ToNumber rt v)"

text \<open>\<^verbatim>\<open>a - b\<close>\<close>

definition js_minus :: "runtime \<Rightarrow> jsval \<Rightarrow> jsval \<Rightarrow> jsval" where
  "js_minus rt a b =
     (case ToNumber rt a of
        None \<Rightarrow> JNaN
      | Some x \<Rightarrow> (case ToNumber rt b of None \<Rightarrow> JNaN | Some y \<Rightarrow> JNumber (x - y)))"

text \<open>\<^verbatim>\<open>a + b\<close> where both operands are numbers (results of \<^verbatim>\<open>Number\<close>).\<close>

fun js_plus :: "jsval \<Rightarrow> jsval \<Rightarrow> jsval" where
  "js_plus (JNumber x) (JNumber y) = JNumber (x + y)"
| "js_plus a b = JNaN"

text \<open>\<^verbatim>\<open>Math.max(0, v)\<close> where \<open>v\<close> is a number.\<close>

fun Math_max0 :: "jsval \<Rightarrow> jsval" where
  "Math_max0 (JNumber x) = JNumber (max 0 x)"
| "Math_max0 v = JNaN"

text \<open>\<^verbatim>\<open>n.toString()\<close> of an integer: its decimal digits.\<close>

fun decimal :: "nat \<Rightarrow> string" where
  "decimal n =
     (if n < 10 then [char_of (48 + n)]
      else decimal (n div 10) @ [char_of (48 + n mod 10)])"

declare decimal.simps [simp del]

definition Number_toString :: "int \<Rightarrow> string" where
  "Number_toString i = (if i < 0 then CHR ''-'' # decimal (nat (- i)) else decimal (nat i))"

record SyncQueueItem =
  qid :: jsval
  action :: QueueAction
  sheet :: SheetName
  payload :: AppItem
  timestamp :: int

text \<open>
  The text of a notification is Arabic prose built from the action and the sheet; the
  model keeps which message it is and its parameters.
\<close>

datatype notification_message =
    SyncItemFailed QueueAction SheetName
  | QueueProcessingFailed
  | FetchFailed

record AppNotification =
  nid :: string
  ntype :: NotificationType
  message :: notification_message

section \<open>Constants (constants.ts)\<close>

definition STORAGE_KEYS_PRODUCTS :: string where "STORAGE_KEYS_PRODUCTS = ''gs_products''"
definition STORAGE_KEYS_SALES :: string where "STORAGE_KEYS_SALES = ''gs_sales''"
definition STORAGE_KEYS_EXPENSES :: string where "STORAGE_KEYS_EXPENSES = ''gs_expenses''"
definition STORAGE_KEYS_CUSTOMERS :: string where "STORAGE_KEYS_CUSTOMERS = ''gs_customers''"

section \<open>Component state\<close>

text \<open>
  A callback handed to \<^verbatim>\<open>setTimeout\<close>. The component schedules four kinds: a call of
  \<open>handleSync\<close> with given arguments, the reconnection callback (which calls
  \<open>handleSync()\<close> only when the initial load has not claimed the first sync), the
  dismissal of a notification, and the hiding of the success toast.
\<close>

datatype timer_callback =
    CallHandleSync bool "SheetName list option"
  | CallHandleSyncUnlessInitialized
  | CallDismissNotification string
  | HideSyncSuccess

text \<open>A request sent to the remote service (kept as a trace of what the pass asked).\<close>

datatype gateway_call =
    PostData SheetName AppItem QueueAction
  | FetchSheet SheetName

text \<open>
  The React state of the component (\<open>status\<close> \dots \<open>customers\<close>), the ref
  \<open>isInitialized\<close>, the browser's \<^verbatim>\<open>navigator.onLine\<close>, the durable store
  (\<open>localCollections\<close> by storage key, \<open>localQueue\<close>), the pending timers and the
  requests sent so far.
\<close>

record app_state =
  navigator_onLine :: bool
  status :: NetworkStatus
  activeTab :: SheetName
  editingItem :: "AppItem option"
  deleteConfirmation_id :: "string option"
  deleteConfirmation_sheet :: "SheetName option"
  queueCount :: nat
  showSyncSuccess :: bool
  notifications :: "AppNotification list"
  notificationsIssued :: nat
  isInitialized :: bool
  products :: "AppItem list"
  sales :: "AppItem list"
  expenses :: "AppItem list"
  customers :: "AppItem list"
  localCollections :: "string \<Rightarrow> AppItem list"
  localQueue :: "SyncQueueItem list"
  timers :: "(nat \<times> timer_callback) list"
  gatewayCalls :: "gateway_call list"

section \<open>Storage service\<close>

text \<open>
  The component imports \<open>getLocalCollection\<close>, \<open>saveLocalCollection\<close>,
  \<open>getSyncQueue\<close>, \<open>addToSyncQueue\<close>, \<open>removeFromQueue\<close> and \<open>updateLocalItem\<close> from
  \<^verbatim>\<open>services/storageService\<close>, which is not among the sources. They are modelled from
  the spec, over a store that returns what was saved and never fails.
\<close>

text \<open>
  Modelled from the spec: \<open>loadCollection(key)\<close> of the durable store, ``opaque get/set
  of named collections''; \<open>getLocalCollection\<close> is missing.
\<close>

definition getLocalCollection :: "string \<Rightarrow> app_state \<Rightarrow> AppItem list" where
  "getLocalCollection k st = localCollections st k"

text \<open>
  Modelled from the spec: \<open>saveCollection(key, records)\<close> of the durable store;
  \<open>saveLocalCollection\<close> is missing.
\<close>

definition saveLocalCollection :: "string \<Rightarrow> AppItem list \<Rightarrow> app_state \<Rightarrow> app_state" where
  "saveLocalCollection k d st = st\<lparr>localCollections := (localCollections st)(k := d)\<rparr>"

text \<open>
  Modelled from the spec: \<open>loadQueue()\<close> of the durable store; \<open>getSyncQueue\<close> is
  missing.
\<close>

definition getSyncQueue :: "app_state \<Rightarrow> SyncQueueItem list" where
  "getSyncQueue st = localQueue st"

text \<open>The key of a queue entry: (collection, id).\<close>

definition qkey :: "SyncQueueItem \<Rightarrow> SheetName \<times> jsval" where
  "qkey e = (sheet e, qid e)"

text \<open>
  Modelled from the spec: ``\<open>enqueue\<close> merges by (collection, id): if an entry for the
  same key exists, the new entry replaces it entirely (payload and action)''; otherwise
  the entry joins the end of the queue. The body of \<open>addToSyncQueue\<close> is missing.
\<close>

definition enqueue :: "SyncQueueItem \<Rightarrow> SyncQueueItem list \<Rightarrow> SyncQueueItem list" where
  "enqueue e q =
     (if \<exists>x \<in> set q. qkey x = qkey e
      then map (\<lambda>x. if qkey x = qkey e then e else x) q
      else q @ [e])"

text \<open>
  Modelled from the spec: \<open>addToSyncQueue\<close> is missing; it is the \<open>enqueue\<close> of the
  spec, on the stored queue.
\<close>

definition addToSyncQueue :: "SyncQueueItem \<Rightarrow> app_state \<Rightarrow> app_state" where
  "addToSyncQueue e st = st\<lparr>localQueue := enqueue e (localQueue st)\<rparr>"

text \<open>
  Modelled from the spec: \<open>remove(id)\<close>; \<open>removeFromQueue\<close> is missing. The component
  calls \<^verbatim>\<open>removeFromQueue(item.id)\<close>, so the entry is identified by its id alone.
\<close>

definition removeFromQueue :: "jsval \<Rightarrow> app_state \<Rightarrow> app_state" where
  "removeFromQueue i st = st\<lparr>localQueue := filter (\<lambda>x. qid x \<noteq> i) (localQueue st)\<rparr>"

text \<open>
  Modelled from the spec: the update ``replaces the record in place (id preserved,
  position preserved)''. The body of \<open>updateLocalItem\<close> is missing.
\<close>

definition replaceById :: "AppItem \<Rightarrow> AppItem list \<Rightarrow> AppItem list" where
  "replaceById item xs = map (\<lambda>x. if field x ''id'' = field item ''id'' then item else x) xs"

text \<open>
  Modelled from the spec: \<open>updateLocalItem\<close> is missing; it replaces the record in
  the stored collection, ``persists'', and returns the new list, which the component
  sets as the in-memory collection.
\<close>

definition updateLocalItem :: "string \<Rightarrow> AppItem \<Rightarrow> app_state \<Rightarrow> AppItem list \<times> app_state" where
  "updateLocalItem k item st =
     (let updated = replaceById item (getLocalCollection k st)
      in (updated, saveLocalCollection k updated st))"

section \<open>Remote service\<close>

text \<open>
  \<^verbatim>\<open>services/apiService\<close> is the transport, outside the component, and the handlers
  take it as a parameter. A delivery (\<open>postDataToSheet\<close>) resolves (\<open>True\<close>) or throws
  (\<open>False\<close>); a fetch (\<open>fetchRemoteSheetData\<close>) throws, resolves to a falsy value, or
  resolves to the rows of the sheet. Within one pass the answer depends on the request
  only.
\<close>

datatype fetch_result = FetchThrows | FetchFalsy | FetchData "AppItem list"

record gateway =
  postDataToSheet :: "SheetName \<Rightarrow> AppItem \<Rightarrow> QueueAction \<Rightarrow> bool"
  fetchRemoteSheetData :: "SheetName \<Rightarrow> fetch_result"

section \<open>Notifications\<close>

definition addNotification ::
  "runtime \<Rightarrow> notification_message \<Rightarrow> NotificationType \<Rightarrow> app_state \<Rightarrow> app_state" where
  "addNotification rt msg ty st =
     (let i = notificationId rt (notificationsIssued st);
          st1 = st\<lparr>notifications := notifications st @ [\<lparr>nid = i, ntype = ty, message = msg\<rparr>],
                   notificationsIssued := Suc (notificationsIssued st)\<rparr>
      in if ty = NInfo \<or> ty = NSuccess
         then st1\<lparr>timers := timers st1 @ [(4000, CallDismissNotification i)]\<rparr>
         else st1)"


section \<open>The sync pass (handleSync)\<close>

text \<open>
  One pass runs to its end without another handler in between: the pacing delays and
  what the user does during them are outside the model. Since the store never fails,
  the outer \<^verbatim>\<open>catch\<close> of the queue step (the message \<open>QueueProcessingFailed\<close>)
  is never entered.
\<close>

definition logCall :: "gateway_call \<Rightarrow> app_state \<Rightarrow> app_state" where
  "logCall c st = st\<lparr>gatewayCalls := gatewayCalls st @ [c]\<rparr>"

text \<open>The loop \<^verbatim>\<open>for (const item of queue)\<close> over the snapshot of the queue.\<close>

fun processQueue :: "runtime \<Rightarrow> gateway \<Rightarrow> SyncQueueItem list \<Rightarrow> app_state \<Rightarrow> app_state" where
  "processQueue rt gw [] st = st"
| "processQueue rt gw (item # rest) st =
     processQueue rt gw rest
       (if postDataToSheet gw (sheet item) (payload item) (action item)
        then removeFromQueue (qid item)
               (logCall (PostData (sheet item) (payload item) (action item)) st)
        else addNotification rt (SyncItemFailed (action item) (sheet item)) NError
               (logCall (PostData (sheet item) (payload item) (action item)) st))"

definition setProducts :: "AppItem list \<Rightarrow> app_state \<Rightarrow> app_state" where
  "setProducts d st = st\<lparr>products := d\<rparr>"

definition setSales :: "AppItem list \<Rightarrow> app_state \<Rightarrow> app_state" where
  "setSales d st = st\<lparr>sales := d\<rparr>"

definition setExpenses :: "AppItem list \<Rightarrow> app_state \<Rightarrow> app_state" where
  "setExpenses d st = st\<lparr>expenses := d\<rparr>"

definition setCustomers :: "AppItem list \<Rightarrow> app_state \<Rightarrow> app_state" where
  "setCustomers d st = st\<lparr>customers := d\<rparr>"

text \<open>The helper \<open>syncSheet\<close>; the flag \<open>hasFetchError\<close> travels with the state.\<close>

definition syncSheet ::
  "gateway \<Rightarrow> SheetName \<Rightarrow> (AppItem list \<Rightarrow> app_state \<Rightarrow> app_state) \<Rightarrow> string
     \<Rightarrow> app_state \<times> bool \<Rightarrow> app_state \<times> bool" where
  "syncSheet gw nm setFn k acc =
     (case fetchRemoteSheetData gw nm of
        FetchThrows \<Rightarrow> (logCall (FetchSheet nm) (fst acc), True)
      | FetchFalsy \<Rightarrow> (logCall (FetchSheet nm) (fst acc), snd acc)
      | FetchData d \<Rightarrow>
          (saveLocalCollection k d (setFn d (logCall (FetchSheet nm) (fst acc))), snd acc))"

record sheet_definition =
  name :: SheetName
  setter :: "AppItem list \<Rightarrow> app_state \<Rightarrow> app_state"
  key :: string

definition sheetDefinitions :: "sheet_definition list" where
  "sheetDefinitions =
     [\<lparr>name = Products, setter = setProducts, key = STORAGE_KEYS_PRODUCTS\<rparr>,
      \<lparr>name = Sales, setter = setSales, key = STORAGE_KEYS_SALES\<rparr>,
      \<lparr>name = Expenses, setter = setExpenses, key = STORAGE_KEYS_EXPENSES\<rparr>,
      \<lparr>name = Customers, setter = setCustomers, key = STORAGE_KEYS_CUSTOMERS\<rparr>]"

text \<open>The loop \<^verbatim>\<open>for (const def of sheetDefinitions)\<close>.\<close>

fun syncSheets ::
  "gateway \<Rightarrow> SheetName list \<Rightarrow> sheet_definition list \<Rightarrow> app_state \<times> bool \<Rightarrow> app_state \<times> bool" where
  "syncSheets gw sheetsToSync [] acc = acc"
| "syncSheets gw sheetsToSync (d # ds) acc =
     syncSheets gw sheetsToSync ds
       (if name d \<in> set sheetsToSync then syncSheet gw (name d) (setter d) (key d) acc else acc)"

text \<open>Step 1 of the pass: upload the queued changes.\<close>

definition drainPhase :: "runtime \<Rightarrow> gateway \<Rightarrow> app_state \<Rightarrow> app_state" where
  "drainPhase rt gw st =
     (let queue = getSyncQueue st
      in if length queue > 0
         then (let st1 = processQueue rt gw queue st
               in st1\<lparr>queueCount := length (getSyncQueue st1)\<rparr>)
         else st)"

text \<open>Step 2 of the pass: fetch the targeted sheets, in the order of \<open>sheetDefinitions\<close>.\<close>

definition pullPhase :: "gateway \<Rightarrow> SheetName list option \<Rightarrow> app_state \<Rightarrow> app_state \<times> bool" where
  "pullPhase gw targetSheets st =
     (let sheetsToSync =
            (case targetSheets of
               None \<Rightarrow> [Products, Sales, Expenses, Customers]
             | Some ts \<Rightarrow> ts)
      in syncSheets gw sheetsToSync sheetDefinitions (st, False))"

text \<open>The end of the pass: the warning, the status, the success toast.\<close>

definition finishSync :: "runtime \<Rightarrow> app_state \<times> bool \<Rightarrow> app_state" where
  "finishSync rt acc =
     (let st1 = (if snd acc then addNotification rt FetchFailed NWarning (fst acc) else fst acc);
          st2 = st1\<lparr>status := ONLINE\<rparr>
      in if \<not> snd acc
         then st2\<lparr>showSyncSuccess := True, timers := timers st2 @ [(3000, HideSyncSuccess)]\<rparr>
         else st2)"

definition beginSync :: "app_state \<Rightarrow> app_state" where
  "beginSync st = st\<lparr>status := SYNCING, showSyncSuccess := False\<rparr>"

definition handleSync ::
  "runtime \<Rightarrow> gateway \<Rightarrow> bool \<Rightarrow> SheetName list option \<Rightarrow> app_state \<Rightarrow> app_state" where
  "handleSync rt gw force targetSheets st =
     (if \<not> navigator_onLine st then st
      else if status st = SYNCING \<and> \<not> force then st
      else finishSync rt (pullPhase gw targetSheets (drainPhase rt gw (beginSync st))))"

section \<open>Startup and connectivity\<close>



definition handleOffline :: "app_state \<Rightarrow> app_state" where
  "handleOffline st = st\<lparr>status := OFFLINE\<rparr>"


section \<open>Local mutations\<close>

text \<open>
  The \<^verbatim>\<open>switch\<close> statements over the four sheets pick the state setter, the in-memory
  list and the storage key of a sheet.
\<close>

fun setterOf :: "SheetName \<Rightarrow> AppItem list \<Rightarrow> app_state \<Rightarrow> app_state" where
  "setterOf Products = setProducts"
| "setterOf Sales = setSales"
| "setterOf Expenses = setExpenses"
| "setterOf Customers = setCustomers"

fun listOf :: "SheetName \<Rightarrow> app_state \<Rightarrow> AppItem list" where
  "listOf Products = products"
| "listOf Sales = sales"
| "listOf Expenses = expenses"
| "listOf Customers = customers"

fun storageKeyOf :: "SheetName \<Rightarrow> string" where
  "storageKeyOf Products = STORAGE_KEYS_PRODUCTS"
| "storageKeyOf Sales = STORAGE_KEYS_SALES"
| "storageKeyOf Expenses = STORAGE_KEYS_EXPENSES"
| "storageKeyOf Customers = STORAGE_KEYS_CUSTOMERS"

definition scheduleSync :: "SheetName list \<Rightarrow> app_state \<Rightarrow> app_state" where
  "scheduleSync targets st =
     (if navigator_onLine st
      then st\<lparr>timers := timers st @ [(1000, CallHandleSync True (Some targets))]\<rparr>
      else st)"

definition refreshQueueCount :: "app_state \<Rightarrow> app_state" where
  "refreshQueueCount st = st\<lparr>queueCount := length (getSyncQueue st)\<rparr>"

subsection \<open>handleSaveItem\<close>

text \<open>The record \<open>updatedItem\<close> of the update path, after the customer mapping.\<close>

definition updatedItem :: "runtime \<Rightarrow> SheetName \<Rightarrow> AppItem \<Rightarrow> AppItem \<Rightarrow> AppItem" where
  "updatedItem rt tab editing formData =
     (let u = (editing ++ formData)
                (''ID'' \<mapsto> js_or (field editing ''ID'') (field editing ''id''),
                 ''ModifiedAt'' \<mapsto> JString (toISOString rt 0))
      in if tab = Customers
         then u(''Email'' \<mapsto> js_or (field formData ''Address'') (field u ''Address''))
         else u)"

text \<open>The record \<open>newItem\<close> of the add path, after the customer mapping.\<close>

definition newItem :: "runtime \<Rightarrow> SheetName \<Rightarrow> AppItem \<Rightarrow> AppItem" where
  "newItem rt tab formData =
     (let i = Number_toString (Date_now rt 0);
          n = [''id'' \<mapsto> JString i, ''ID'' \<mapsto> JString i,
               ''timestamp'' \<mapsto> JNumber (Date_now rt 1)] ++ formData
      in if tab = Customers
         then n(''Email'' \<mapsto> field formData ''Address'',
                ''LastPurchase'' \<mapsto> JString (formatDateTime rt))
         else n)"

definition handleSaveItem :: "runtime \<Rightarrow> AppItem \<Rightarrow> app_state \<Rightarrow> app_state" where
  "handleSaveItem rt formData st =
     scheduleSync [activeTab st]
       (case editingItem st of
          Some editing \<Rightarrow>
            (let u = updatedItem rt (activeTab st) editing formData;
                 r = updateLocalItem (storageKeyOf (activeTab st)) u st
             in refreshQueueCount
                  (addToSyncQueue
                     \<lparr>qid = field u ''id'', action = UPDATE, sheet = activeTab st,
                      payload = u, timestamp = Date_now rt 0\<rparr>
                     (setterOf (activeTab st) (fst r) (snd r))))
        | None \<Rightarrow>
            (let n = newItem rt (activeTab st) formData;
                 newList = n # listOf (activeTab st) st
             in refreshQueueCount
                  (addToSyncQueue
                     \<lparr>qid = field n ''id'', action = ADD, sheet = activeTab st,
                      payload = n, timestamp = Date_now rt 2\<rparr>
                     (saveLocalCollection (storageKeyOf (activeTab st)) newList
                        (setterOf (activeTab st) newList st)))))"

subsection \<open>handleSaleSubmit\<close>

text \<open>1. Create Sale\<close>

definition newSale :: "runtime \<Rightarrow> AppItem \<Rightarrow> AppItem" where
  "newSale rt saleData =
     ([''id'' \<mapsto> JString (Number_toString (Date_now rt 0)),
       ''ID'' \<mapsto> JString (Number_toString (Date_now rt 0)),
       ''timestamp'' \<mapsto> JNumber (Date_now rt 0)] ++ saleData)
       (''Date'' \<mapsto> JString (formatDateTime rt))"

definition createSale :: "runtime \<Rightarrow> AppItem \<Rightarrow> app_state \<Rightarrow> app_state" where
  "createSale rt saleData st =
     (let newSalesList = newSale rt saleData # sales st
      in addToSyncQueue
           \<lparr>qid = JString (Number_toString (Date_now rt 0)), action = ADD, sheet = Sales,
            payload = newSale rt saleData, timestamp = Date_now rt 0\<rparr>
           (saveLocalCollection STORAGE_KEYS_SALES newSalesList (setSales newSalesList st)))"

text \<open>2. Decrement Product Stock\<close>

definition updatedProduct :: "runtime \<Rightarrow> AppItem \<Rightarrow> AppItem \<Rightarrow> AppItem" where
  "updatedProduct rt productToUpdate saleData =
     productToUpdate
       (''Stock'' \<mapsto>
          Math_max0 (js_minus rt (field productToUpdate ''Stock'') (field saleData ''Quantity'')),
        ''ID'' \<mapsto> js_or (field productToUpdate ''ID'') (field productToUpdate ''id''),
        ''ModifiedAt'' \<mapsto> JString (toISOString rt 0))"

definition decrementStock :: "runtime \<Rightarrow> AppItem list \<Rightarrow> AppItem \<Rightarrow> app_state \<Rightarrow> app_state" where
  "decrementStock rt productList saleData st =
     (case find (\<lambda>p. strict_eq (field p ''Name'') (field saleData ''ProductName'')) productList of
        None \<Rightarrow> st
      | Some productToUpdate \<Rightarrow>
          (let u = updatedProduct rt productToUpdate saleData;
               r = updateLocalItem STORAGE_KEYS_PRODUCTS u st
           in addToSyncQueue
                \<lparr>qid = field u ''id'', action = UPDATE, sheet = Products,
                 payload = u, timestamp = Date_now rt 0 + 2\<rparr>
                (setProducts (fst r) (snd r))))"

text \<open>3. Create/Update Customer\<close>

definition updatedCustomer :: "runtime \<Rightarrow> AppItem \<Rightarrow> AppItem \<Rightarrow> AppItem \<Rightarrow> AppItem" where
  "updatedCustomer rt existingCustomer saleData customerData =
     existingCustomer
       (''TotalPurchases'' \<mapsto>
          js_plus (Number rt (js_or (field existingCustomer ''TotalPurchases'') (JNumber 0)))
                  (Number rt (field saleData ''Total'')),
        ''Address'' \<mapsto> js_or (field customerData ''Address'') (field existingCustomer ''Address''),
        ''Email'' \<mapsto> js_or (field customerData ''Address'') (field existingCustomer ''Address''),
        ''LastPurchase'' \<mapsto> JString (formatDateTime rt),
        ''ID'' \<mapsto> js_or (field existingCustomer ''ID'') (field existingCustomer ''id''),
        ''ModifiedAt'' \<mapsto> JString (toISOString rt 1))"

definition newCustomer :: "runtime \<Rightarrow> AppItem \<Rightarrow> AppItem" where
  "newCustomer rt customerData =
     ([''id'' \<mapsto> JString (Number_toString (Date_now rt 0 + 1)),
       ''ID'' \<mapsto> JString (Number_toString (Date_now rt 0 + 1)),
       ''timestamp'' \<mapsto> JNumber (Date_now rt 0 + 1)] ++ customerData)
       (''Email'' \<mapsto> field customerData ''Address'',
        ''LastPurchase'' \<mapsto> JString (formatDateTime rt))"

definition upsertCustomer ::
  "runtime \<Rightarrow> AppItem list \<Rightarrow> AppItem \<Rightarrow> AppItem \<Rightarrow> app_state \<Rightarrow> app_state" where
  "upsertCustomer rt customerList saleData customerData st =
     (case find (\<lambda>c. strict_eq (field c ''Phone'') (field customerData ''Phone'')) customerList of
        Some existingCustomer \<Rightarrow>
          (let u = updatedCustomer rt existingCustomer saleData customerData;
               r = updateLocalItem STORAGE_KEYS_CUSTOMERS u
                     (snd (updateLocalItem STORAGE_KEYS_CUSTOMERS u st))
           in addToSyncQueue
                \<lparr>qid = field u ''id'', action = UPDATE, sheet = Customers,
                 payload = u, timestamp = Date_now rt 0 + 1\<rparr>
                (setCustomers (fst r) (snd r)))
      | None \<Rightarrow>
          (let newCustomersList = newCustomer rt customerData # customerList
           in addToSyncQueue
                \<lparr>qid = JString (Number_toString (Date_now rt 0 + 1)), action = ADD,
                 sheet = Customers, payload = newCustomer rt customerData,
                 timestamp = Date_now rt 0 + 1\<rparr>
                (saveLocalCollection STORAGE_KEYS_CUSTOMERS newCustomersList
                   (setCustomers newCustomersList st))))"

text \<open>
  The three steps read \<open>products\<close> and \<open>customers\<close> as they were when the handler
  started.
\<close>

definition handleSaleSubmit :: "runtime \<Rightarrow> AppItem \<Rightarrow> AppItem \<Rightarrow> app_state \<Rightarrow> app_state" where
  "handleSaleSubmit rt saleData customerData st =
     scheduleSync [Sales, Products, Customers]
       (refreshQueueCount
          (upsertCustomer rt (customers st) saleData customerData
             (decrementStock rt (products st) saleData
                (createSale rt saleData st))))"

subsection \<open>executeDelete\<close>

definition queueDelete ::
  "runtime \<Rightarrow> string \<Rightarrow> SheetName \<Rightarrow> AppItem list \<Rightarrow> app_state \<Rightarrow> AppItem list \<times> app_state" where
  "queueDelete rt i sh xs st =
     (filter (\<lambda>x. \<not> strict_eq (field x ''id'') (JString i)) xs,
      (case find (\<lambda>x. strict_eq (field x ''id'') (JString i)) xs of
         None \<Rightarrow> st
       | Some itemToDelete \<Rightarrow>
           addToSyncQueue
             \<lparr>qid = field itemToDelete ''id'', action = DELETE, sheet = sh,
              payload = itemToDelete
                (''ID'' \<mapsto> js_or (field itemToDelete ''ID'') (field itemToDelete ''id'')),
              timestamp = Date_now rt 0\<rparr> st))"

definition executeDelete :: "runtime \<Rightarrow> app_state \<Rightarrow> app_state" where
  "executeDelete rt st =
     (case deleteConfirmation_id st of
        None \<Rightarrow> st
      | Some i \<Rightarrow>
          if i = [] then st
          else (case deleteConfirmation_sheet st of
                  None \<Rightarrow> st
                | Some sh \<Rightarrow>
                    (let r = queueDelete rt i sh (listOf sh st) st
                     in scheduleSync [sh]
                          (refreshQueueCount
                             (saveLocalCollection (storageKeyOf sh) (fst r)
                                (setterOf sh (fst r) (snd r)))))))"

section \<open>Notions used in the statements\<close>

text \<open>A sequence of enqueue operations, oldest first.\<close>

fun enqueueAll :: "SyncQueueItem list \<Rightarrow> app_state \<Rightarrow> app_state" where
  "enqueueAll [] st = st"
| "enqueueAll (e # es) st = enqueueAll es (addToSyncQueue e st)"

text \<open>Whether the remote service accepts the delivery of a queue entry.\<close>

definition delivered :: "gateway \<Rightarrow> SyncQueueItem \<Rightarrow> bool" where
  "delivered gw e \<longleftrightarrow> postDataToSheet gw (sheet e) (payload e) (action e)"

text \<open>The request that delivers a queue entry.\<close>

definition postOf :: "SyncQueueItem \<Rightarrow> gateway_call" where
  "postOf e = PostData (sheet e) (payload e) (action e)"

text \<open>Whether a pass with the argument \<open>targetSheets\<close> fetches the sheet \<open>s\<close>.\<close>

definition targeted :: "SheetName list option \<Rightarrow> SheetName \<Rightarrow> bool" where
  "targeted targetSheets s = (case targetSheets of None \<Rightarrow> True | Some ts \<Rightarrow> s \<in> set ts)"

text \<open>
  An entry of \<open>sheetDefinitions\<close> pairs a sheet with the setter and the storage key of
  that same sheet.
\<close>

definition canonical :: "sheet_definition \<Rightarrow> bool" where
  "canonical d \<longleftrightarrow> setter d = setterOf (name d) \<and> key d = storageKeyOf (name d)"

text \<open>The two guards at the head of \<open>handleSync\<close> let the pass begin.\<close>

definition passRuns :: "bool \<Rightarrow> app_state \<Rightarrow> bool" where
  "passRuns force st \<longleftrightarrow> navigator_onLine st \<and> (status st \<noteq> SYNCING \<or> force)"

text \<open>The remote-facing \<open>Email\<close> property of a customer mirrors its \<open>Address\<close>.\<close>

definition mirrored :: "AppItem \<Rightarrow> bool" where
  "mirrored c \<longleftrightarrow> field c ''Email'' = field c ''Address''"

text \<open>
  Every customer the component holds is mirrored: those in memory, those in the store,
  and the payloads queued for the Customers sheet.
\<close>

definition customersMirrored :: "app_state \<Rightarrow> bool" where
  "customersMirrored st \<longleftrightarrow>
     list_all mirrored (customers st)
     \<and> list_all mirrored (getLocalCollection STORAGE_KEYS_CUSTOMERS st)
     \<and> list_all (\<lambda>e. sheet e = Customers \<longrightarrow> mirrored (payload e)) (getSyncQueue st)"

text \<open>The queue entry that \<open>executeDelete\<close> builds for the record \<open>r\<close> of the sheet \<open>sh\<close>.\<close>

definition deleteEntry :: "runtime \<Rightarrow> SheetName \<Rightarrow> AppItem \<Rightarrow> SyncQueueItem" where
  "deleteEntry rt sh r =
     \<lparr>qid = field r ''id'', action = DELETE, sheet = sh,
      payload = r(''ID'' \<mapsto> js_or (field r ''ID'') (field r ''id'')),
      timestamp = Date_now rt 0\<rparr>"

section \<open>Sample data\<close>

text \<open>The values of the component's state hooks when it mounts with an empty store.\<close>

definition initialState :: "bool \<Rightarrow> app_state" where
  "initialState online =
     \<lparr>navigator_onLine = online,
      status = (if online then ONLINE else OFFLINE),
      activeTab = Products,
      editingItem = None,
      deleteConfirmation_id = None,
      deleteConfirmation_sheet = None,
      queueCount = 0,
      showSyncSuccess = False,
      notifications = [],
      notificationsIssued = 0,
      isInitialized = False,
      products = [],
      sales = [],
      expenses = [],
      customers = [],
      localCollections = (\<lambda>k. []),
      localQueue = [],
      timers = [],
      gatewayCalls = []\<rparr>"

text \<open>
  A clock stopped at one instant, notification ids in the format of the component, and
  a conversion of strings to numbers that knows no numeric string (the samples convert
  none).
\<close>

definition sampleRuntime :: runtime where
  "sampleRuntime =
     \<lparr>Date_now = (\<lambda>n. 1700000000000 + int n),
      toISOString = (\<lambda>n. ''2023-11-14T22:13:20.000Z''),
      formatDateTime = ''14/11/2023 22:13:20'',
      StringToNumber = (\<lambda>s. None),
      notificationId = (\<lambda>n. ''1700000000000'' @ ''0.'' @ replicate (Suc n) (CHR ''7''))\<rparr>"

text \<open>The same, ten minutes later.\<close>

definition laterRuntime :: runtime where
  "laterRuntime =
     sampleRuntime\<lparr>Date_now := (\<lambda>n. 1700000600000 + int n),
                   formatDateTime := ''14/11/2023 22:23:20''\<rparr>"

text \<open>A remote service that accepts every delivery and answers every fetch with \<open>remote\<close>.\<close>

definition gatewayUp :: "(SheetName \<Rightarrow> AppItem list) \<Rightarrow> gateway" where
  "gatewayUp remote =
     \<lparr>postDataToSheet = (\<lambda>s p a. True),
      fetchRemoteSheetData = (\<lambda>s. FetchData (remote s))\<rparr>"

text \<open>
  A remote service that rejects deliveries to Products and fails the fetch of Products,
  and serves the other sheets (with no rows).
\<close>

definition gatewayProductsDown :: gateway where
  "gatewayProductsDown =
     \<lparr>postDataToSheet = (\<lambda>s p a. s \<noteq> Products),
      fetchRemoteSheetData = (\<lambda>s. if s = Products then FetchThrows else FetchData [])\<rparr>"

text \<open>
  A product and a customer. Both carry the id \<open>1\<close>: ids are unique within a sheet,
  and the rows of each remote sheet are numbered on their own.
\<close>

definition bread :: AppItem where
  "bread = [''id'' \<mapsto> JString ''1'', ''ID'' \<mapsto> JString ''1'',
            ''Name'' \<mapsto> JString ''Bread'', ''Stock'' \<mapsto> JNumber 10]"

definition ali :: AppItem where
  "ali = [''id'' \<mapsto> JString ''1'', ''ID'' \<mapsto> JString ''1'',
          ''Name'' \<mapsto> JString ''Ali'', ''Phone'' \<mapsto> JString ''0600000000'',
          ''Address'' \<mapsto> JString ''Rabat'', ''Email'' \<mapsto> JString ''Rabat'',
          ''TotalPurchases'' \<mapsto> JNumber 50]"

text \<open>A product as a remote sheet without an \<open>ID\<close> column would deliver it.\<close>

definition plainBread :: AppItem where
  "plainBread = [''id'' \<mapsto> JString ''2'', ''Name'' \<mapsto> JString ''Bread'']"

text \<open>Queue entries for the product and for the customer.\<close>

definition breadAdd :: SyncQueueItem where
  "breadAdd = \<lparr>qid = JString ''1'', action = ADD, sheet = Products,
               payload = bread, timestamp = 100\<rparr>"

definition breadDelete :: SyncQueueItem where
  "breadDelete = \<lparr>qid = JString ''1'', action = DELETE, sheet = Products,
                  payload = bread, timestamp = 200\<rparr>"

definition breadUpdate :: SyncQueueItem where
  "breadUpdate = \<lparr>qid = JString ''1'', action = UPDATE, sheet = Products,
                  payload = bread, timestamp = 300\<rparr>"

definition aliUpdate :: SyncQueueItem where
  "aliUpdate = \<lparr>qid = JString ''1'', action = UPDATE, sheet = Customers,
                payload = ali, timestamp = 400\<rparr>"

text \<open>A shop with one product and one customer, nothing queued, online.\<close>

definition shop :: app_state where
  "shop =
     (initialState True)
       \<lparr>products := [bread], customers := [ali],
        localCollections :=
          (\<lambda>k. if k = STORAGE_KEYS_PRODUCTS then [bread]
               else if k = STORAGE_KEYS_CUSTOMERS then [ali] else [])\<rparr>"

text \<open>The shop with the Customers tab open.\<close>

definition customersTab :: app_state where
  "customersTab = shop\<lparr>activeTab := Customers\<rparr>"

text \<open>
  The shop with its product and its customer both edited while offline and now queued,
  the browser back online.
\<close>

definition editedOffline :: app_state where
  "editedOffline =
     (initialState True)
       \<lparr>products := [bread], customers := [ali],
        localCollections :=
          (\<lambda>k. if k = STORAGE_KEYS_PRODUCTS then [bread]
               else if k = STORAGE_KEYS_CUSTOMERS then [ali] else []),
        localQueue := [breadUpdate, aliUpdate],
        queueCount := 2\<rparr>"

text \<open>The same with only the product edit queued.\<close>

definition productEditedOffline :: app_state where
  "productEditedOffline = editedOffline\<lparr>localQueue := [breadUpdate], queueCount := 1\<rparr>"

text \<open>The sale form: \<open>q\<close> loaves of bread for a total of \<open>t\<close>.\<close>

definition breadSale :: "int \<Rightarrow> int \<Rightarrow> AppItem" where
  "breadSale q t =
     [''ProductName'' \<mapsto> JString ''Bread'', ''Quantity'' \<mapsto> JNumber q,
      ''Price'' \<mapsto> JNumber 5, ''Total'' \<mapsto> JNumber t,
      ''Customer'' \<mapsto> JString ''Ali'', ''Status'' \<mapsto> JString ''Paid'',
      ''CustomerPhone'' \<mapsto> JString ''0600000000'']"

text \<open>The customer part of the sale form.\<close>

definition aliContact :: AppItem where
  "aliContact = [''Name'' \<mapsto> JString ''Ali'', ''Phone'' \<mapsto> JString ''0600000000'',
                 ''Address'' \<mapsto> JString ''Sale'']"

text \<open>
  The customer part of the sale form at a first visit: the form carries the total of the
  sale as the customer's cumulative total.
\<close>

definition aliFirstVisit :: AppItem where
  "aliFirstVisit = aliContact(''TotalPurchases'' \<mapsto> JNumber 50)"

text \<open>Two sales for one phone in a shop with no customer yet: totals 50, then 30.\<close>

definition firstVisit :: app_state where
  "firstVisit = handleSaleSubmit sampleRuntime (breadSale 10 50) aliFirstVisit (initialState True)"

definition secondVisit :: app_state where
  "secondVisit = handleSaleSubmit laterRuntime (breadSale 6 30) aliContact firstVisit"

text \<open>The user has confirmed the deletion of the product of the shop.\<close>

definition deletingBread :: app_state where
  "deletingBread =
     shop\<lparr>deleteConfirmation_id := Some ''1'', deleteConfirmation_sheet := Some Products\<rparr>"

text \<open>The user has confirmed the deletion of the product that has no \<open>ID\<close>.\<close>

definition deletingPlainBread :: app_state where
  "deletingPlainBread =
     (initialState True)
       \<lparr>products := [plainBread],
        localCollections := (\<lambda>k. if k = STORAGE_KEYS_PRODUCTS then [plainBread] else []),
        deleteConfirmation_id := Some ''2'',
        deleteConfirmation_sheet := Some Products\<rparr>"



section \<open>The mutation queue\<close>

lemma enqueue_keys:
  "map qkey (enqueue e q) =
     (if qkey e \<in> set (map qkey q) then map qkey q else map qkey q @ [qkey e])"
proof -
  have "map qkey (map (\<lambda>x. if qkey x = qkey e then e else x) q) = map qkey q"
    by (induction q) auto
  moreover have "(\<exists>x \<in> set q. qkey x = qkey e) \<longleftrightarrow> qkey e \<in> set (map qkey q)"
    by (auto simp: image_iff) metis
  ultimately show ?thesis
    by (simp add: enqueue_def)
qed

lemma enqueue_distinct: "distinct (map qkey q) \<Longrightarrow> distinct (map qkey (enqueue e q))"
  by (simp add: enqueue_keys)

lemma replace_filter:
  "distinct (map qkey q) \<Longrightarrow> k \<in> set (map qkey q) \<Longrightarrow> qkey e = k \<Longrightarrow>
   filter (\<lambda>x. qkey x = k) (map (\<lambda>x. if qkey x = k then e else x) q) = [e]"
proof (induction q)
  case Nil
  then show ?case by simp
next
  case (Cons a q)
  show ?case
  proof (cases "qkey a = k")
    case True
    with Cons.prems have "k \<notin> set (map qkey q)" by auto
    then have "filter (\<lambda>x. qkey x = k) (map (\<lambda>x. if qkey x = k then e else x) q) = []"
      by (induction q) auto
    with True Cons.prems show ?thesis by simp
  next
    case False
    with Cons show ?thesis by auto
  qed
qed

lemma enqueue_filter_same:
  assumes "distinct (map qkey q)"
  shows "filter (\<lambda>x. qkey x = qkey e) (enqueue e q) = [e]"
proof (cases "\<exists>x \<in> set q. qkey x = qkey e")
  case True
  then have "qkey e \<in> set (map qkey q)" by (auto simp: image_iff) metis
  with assms True show ?thesis
    by (simp add: enqueue_def replace_filter)
next
  case False
  then have "filter (\<lambda>x. qkey x = qkey e) q = []"
    by (induction q) auto
  with False show ?thesis by (simp add: enqueue_def)
qed

lemma enqueueAll_snoc: "enqueueAll (es @ [e]) st = addToSyncQueue e (enqueueAll es st)"
  by (induction es arbitrary: st) auto

lemma enqueueAll_distinct:
  "distinct (map qkey (getSyncQueue st)) \<Longrightarrow>
   distinct (map qkey (getSyncQueue (enqueueAll es st)))"
  by (induction es arbitrary: st)
     (auto simp: getSyncQueue_def addToSyncQueue_def enqueue_distinct)

text \<open>
  C1. Take a queue with at most one entry per (collection, id) and enqueue any non-empty
  sequence of entries that all carry the key \<open>k\<close>. The queue then holds exactly one
  entry with key \<open>k\<close>, it is the most recent one enqueued (so its payload and action are
  the latest), and no key has two entries.
\<close>

theorem addToSyncQueue_latest_wins:
  assumes "distinct (map qkey (getSyncQueue st))"
    and "es \<noteq> []"
    and "\<forall>e \<in> set es. qkey e = k"
  shows "filter (\<lambda>x. qkey x = k) (getSyncQueue (enqueueAll es st)) = [last es]
         \<and> distinct (map qkey (getSyncQueue (enqueueAll es st)))"
proof -
  from assms(2) obtain es' e where es: "es = es' @ [e]"
    by (cases es rule: rev_cases) auto
  with assms(3) have k: "qkey e = k" by simp
  have d: "distinct (map qkey (getSyncQueue (enqueueAll es' st)))"
    using assms(1) by (rule enqueueAll_distinct)
  have "getSyncQueue (enqueueAll es st) = enqueue e (getSyncQueue (enqueueAll es' st))"
    by (simp add: es enqueueAll_snoc getSyncQueue_def addToSyncQueue_def)
  with d k es show ?thesis
    using enqueue_filter_same [of "getSyncQueue (enqueueAll es' st)" e]
    by (simp add: enqueue_distinct)
qed

theorem addToSyncQueue_latest_wins_witness:
  "distinct (map qkey (getSyncQueue (initialState True)))
   \<and> [breadAdd, breadDelete] \<noteq> []
   \<and> qkey breadAdd = (Products, JString ''1'')
   \<and> qkey breadDelete = (Products, JString ''1'')
   \<and> filter (\<lambda>x. qkey x = (Products, JString ''1''))
         (getSyncQueue (enqueueAll [breadAdd, breadDelete] (initialState True))) = [breadDelete]
   \<and> action (hd (getSyncQueue (enqueueAll [breadAdd, breadDelete] (initialState True)))) = DELETE"
  using addToSyncQueue_latest_wins
    [of "initialState True" "[breadAdd, breadDelete]" "(Products, JString ''1'')"]
  by (simp add: initialState_def getSyncQueue_def addToSyncQueue_def enqueue_def qkey_def
      breadAdd_def breadDelete_def)

section \<open>The sync pass\<close>

lemma processQueue_frame:
  "status (processQueue rt gw items st) = status st
   \<and> products (processQueue rt gw items st) = products st
   \<and> sales (processQueue rt gw items st) = sales st
   \<and> expenses (processQueue rt gw items st) = expenses st
   \<and> customers (processQueue rt gw items st) = customers st
   \<and> localCollections (processQueue rt gw items st) = localCollections st"
  by (induction items arbitrary: st)
     (simp_all add: removeFromQueue_def addNotification_def logCall_def Let_def)

lemma processQueue_localQueue:
  "localQueue (processQueue rt gw items st) =
     filter (\<lambda>x. \<forall>i \<in> set items. delivered gw i \<longrightarrow> qid x \<noteq> qid i) (localQueue st)"
proof (induction items arbitrary: st)
  case Nil
  then show ?case by simp
next
  case (Cons item rest)
  show ?case
  proof (cases "delivered gw item")
    case True
    then show ?thesis
      by (simp add: Cons.IH delivered_def removeFromQueue_def logCall_def conj_commute)
  next
    case False
    then show ?thesis
      by (simp add: Cons.IH delivered_def addNotification_def logCall_def Let_def)
  qed
qed

lemma processQueue_gatewayCalls:
  "gatewayCalls (processQueue rt gw items st) = gatewayCalls st @ map postOf items"
  by (induction items arbitrary: st)
     (simp_all add: removeFromQueue_def addNotification_def logCall_def Let_def postOf_def)

lemma storageKeyOf_inj [simp]: "storageKeyOf s = storageKeyOf t \<longleftrightarrow> s = t"
  by (cases s; cases t)
     (simp_all add: STORAGE_KEYS_PRODUCTS_def STORAGE_KEYS_SALES_def
        STORAGE_KEYS_EXPENSES_def STORAGE_KEYS_CUSTOMERS_def)

lemma setterOf_listOf [simp]:
  "listOf s (setterOf nm d st) = (if s = nm then d else listOf s st)"
  by (cases s; cases nm) (simp_all add: setProducts_def setSales_def setExpenses_def setCustomers_def)

lemma listOf_logCall [simp]: "listOf s (logCall c st) = listOf s st"
  by (cases s) (simp_all add: logCall_def)

lemma listOf_saveLocalCollection [simp]: "listOf s (saveLocalCollection k d st) = listOf s st"
  by (cases s) (simp_all add: saveLocalCollection_def)

lemma setterOf_localCollections [simp]:
  "localCollections (setterOf nm d st) = localCollections st"
  by (cases nm) (simp_all add: setProducts_def setSales_def setExpenses_def setCustomers_def)

lemma syncSheet_listOf:
  "listOf s (fst (syncSheet gw nm (setterOf nm) (storageKeyOf nm) acc)) =
     (if s = nm
      then (case fetchRemoteSheetData gw nm of FetchData d \<Rightarrow> d | _ \<Rightarrow> listOf s (fst acc))
      else listOf s (fst acc))"
  by (simp add: syncSheet_def split: fetch_result.split)

lemma syncSheet_stored:
  "getLocalCollection (storageKeyOf s) (fst (syncSheet gw nm (setterOf nm) (storageKeyOf nm) acc)) =
     (if s = nm
      then (case fetchRemoteSheetData gw nm of
              FetchData d \<Rightarrow> d
            | _ \<Rightarrow> getLocalCollection (storageKeyOf s) (fst acc))
      else getLocalCollection (storageKeyOf s) (fst acc))"
  by (simp add: syncSheet_def getLocalCollection_def saveLocalCollection_def logCall_def
      split: fetch_result.split)

lemma syncSheet_snd:
  "snd (syncSheet gw nm setFn k acc) \<longleftrightarrow> snd acc \<or> fetchRemoteSheetData gw nm = FetchThrows"
  by (simp add: syncSheet_def split: fetch_result.split)

lemma setterOf_frame [simp]:
  "status (setterOf nm d st) = status st"
  "localQueue (setterOf nm d st) = localQueue st"
  "gatewayCalls (setterOf nm d st) = gatewayCalls st"
  by (cases nm; simp add: setProducts_def setSales_def setExpenses_def setCustomers_def)+

lemma syncSheet_frame:
  "status (fst (syncSheet gw nm (setterOf nm) k acc)) = status (fst acc)
   \<and> localQueue (fst (syncSheet gw nm (setterOf nm) k acc)) = localQueue (fst acc)
   \<and> gatewayCalls (fst (syncSheet gw nm (setterOf nm) k acc)) = gatewayCalls (fst acc) @ [FetchSheet nm]"
  by (simp add: syncSheet_def saveLocalCollection_def logCall_def split: fetch_result.split)

lemma syncSheets_listOf:
  "list_all canonical ds \<Longrightarrow>
   listOf s (fst (syncSheets gw ts ds acc)) =
     (if s \<in> set ts \<and> s \<in> set (map name ds)
      then (case fetchRemoteSheetData gw s of FetchData d \<Rightarrow> d | _ \<Rightarrow> listOf s (fst acc))
      else listOf s (fst acc))"
proof (induction ds arbitrary: acc)
  case Nil
  then show ?case by simp
next
  case (Cons d ds)
  from Cons.prems have cd: "canonical d" and cs: "list_all canonical ds"
    by simp_all
  from cd have c: "setter d = setterOf (name d)" "key d = storageKeyOf (name d)"
    by (simp_all add: canonical_def)
  show ?case
    by (auto simp: Cons.IH [OF cs] c syncSheet_listOf split: fetch_result.split)
qed

lemma syncSheets_stored:
  "list_all canonical ds \<Longrightarrow>
   getLocalCollection (storageKeyOf s) (fst (syncSheets gw ts ds acc)) =
     (if s \<in> set ts \<and> s \<in> set (map name ds)
      then (case fetchRemoteSheetData gw s of
              FetchData d \<Rightarrow> d
            | _ \<Rightarrow> getLocalCollection (storageKeyOf s) (fst acc))
      else getLocalCollection (storageKeyOf s) (fst acc))"
proof (induction ds arbitrary: acc)
  case Nil
  then show ?case by simp
next
  case (Cons d ds)
  from Cons.prems have cd: "canonical d" and cs: "list_all canonical ds"
    by simp_all
  from cd have c: "setter d = setterOf (name d)" "key d = storageKeyOf (name d)"
    by (simp_all add: canonical_def)
  show ?case
    by (auto simp: Cons.IH [OF cs] c syncSheet_stored split: fetch_result.split)
qed

lemma syncSheets_snd:
  "snd (syncSheets gw ts ds acc) \<longleftrightarrow>
     snd acc \<or> (\<exists>d \<in> set ds. name d \<in> set ts \<and> fetchRemoteSheetData gw (name d) = FetchThrows)"
  by (induction ds arbitrary: acc) (auto simp: syncSheet_snd)

lemma syncSheets_frame:
  "list_all canonical ds \<Longrightarrow>
   status (fst (syncSheets gw ts ds acc)) = status (fst acc)
   \<and> localQueue (fst (syncSheets gw ts ds acc)) = localQueue (fst acc)
   \<and> gatewayCalls (fst (syncSheets gw ts ds acc)) =
       gatewayCalls (fst acc) @ map FetchSheet (filter (\<lambda>s. s \<in> set ts) (map name ds))"
proof (induction ds arbitrary: acc)
  case Nil
  then show ?case by simp
next
  case (Cons d ds)
  from Cons.prems have cd: "canonical d" and cs: "list_all canonical ds"
    by simp_all
  from cd have c: "setter d = setterOf (name d)"
    by (simp add: canonical_def)
  show ?case
    by (simp add: Cons.IH [OF cs] c syncSheet_frame)
qed

lemma sheetDefinitions_canonical: "list_all canonical sheetDefinitions"
  by (simp add: sheetDefinitions_def canonical_def)

lemma sheetDefinitions_names: "map name sheetDefinitions = [Products, Sales, Expenses, Customers]"
  by (simp add: sheetDefinitions_def)

lemma all_sheets: "s \<in> set [Products, Sales, Expenses, Customers]"
  by (cases s) simp_all


lemma listOf_frame [simp]:
  "listOf s (st\<lparr>status := a\<rparr>) = listOf s st"
  "listOf s (st\<lparr>showSyncSuccess := b\<rparr>) = listOf s st"
  "listOf s (st\<lparr>queueCount := n\<rparr>) = listOf s st"
  "listOf s (st\<lparr>timers := t\<rparr>) = listOf s st"
  "listOf s (st\<lparr>localQueue := q\<rparr>) = listOf s st"
  by (cases s; simp)+

lemma listOf_addNotification [simp]: "listOf s (addNotification rt m ty st) = listOf s st"
  by (cases s) (simp_all add: addNotification_def Let_def)

lemma listOf_processQueue [simp]: "listOf s (processQueue rt gw items st) = listOf s st"
  by (cases s) (simp_all add: processQueue_frame)

lemma drainPhase_localQueue:
  "localQueue (drainPhase rt gw st) =
     filter (\<lambda>x. \<forall>i \<in> set (localQueue st). delivered gw i \<longrightarrow> qid x \<noteq> qid i) (localQueue st)"
  by (simp add: drainPhase_def getSyncQueue_def Let_def processQueue_localQueue)

lemma drainPhase_frame:
  "status (drainPhase rt gw st) = status st
   \<and> listOf s (drainPhase rt gw st) = listOf s st
   \<and> getLocalCollection k (drainPhase rt gw st) = getLocalCollection k st
   \<and> gatewayCalls (drainPhase rt gw st) = gatewayCalls st @ map postOf (localQueue st)"
  by (simp add: drainPhase_def getSyncQueue_def getLocalCollection_def Let_def
      processQueue_frame processQueue_gatewayCalls)

lemma sheetsToSync_targeted:
  "s \<in> set (case targetSheets of None \<Rightarrow> [Products, Sales, Expenses, Customers] | Some ts \<Rightarrow> ts)
     \<longleftrightarrow> targeted targetSheets s"
  by (cases targetSheets; cases s) (simp_all add: targeted_def)

lemma pullPhase_listOf:
  "listOf s (fst (pullPhase gw targetSheets st)) =
     (if targeted targetSheets s
      then (case fetchRemoteSheetData gw s of FetchData d \<Rightarrow> d | _ \<Rightarrow> listOf s st)
      else listOf s st)"
  using all_sheets [of s]
  by (simp add: pullPhase_def syncSheets_listOf [OF sheetDefinitions_canonical]
      sheetDefinitions_names sheetsToSync_targeted del: set_simps split: fetch_result.split)

lemma pullPhase_stored:
  "getLocalCollection (storageKeyOf s) (fst (pullPhase gw targetSheets st)) =
     (if targeted targetSheets s
      then (case fetchRemoteSheetData gw s of
              FetchData d \<Rightarrow> d
            | _ \<Rightarrow> getLocalCollection (storageKeyOf s) st)
      else getLocalCollection (storageKeyOf s) st)"
  using all_sheets [of s]
  by (simp add: pullPhase_def syncSheets_stored [OF sheetDefinitions_canonical]
      sheetDefinitions_names sheetsToSync_targeted del: set_simps split: fetch_result.split)

lemma pullPhase_frame:
  "status (fst (pullPhase gw targetSheets st)) = status st
   \<and> localQueue (fst (pullPhase gw targetSheets st)) = localQueue st
   \<and> gatewayCalls (fst (pullPhase gw targetSheets st)) =
       gatewayCalls st @
       map FetchSheet (filter (targeted targetSheets) [Products, Sales, Expenses, Customers])"
  by (simp add: pullPhase_def syncSheets_frame [OF sheetDefinitions_canonical]
      sheetDefinitions_names sheetsToSync_targeted del: set_simps filter.simps)

lemma finishSync_frame:
  "status (finishSync rt acc) = ONLINE
   \<and> listOf s (finishSync rt acc) = listOf s (fst acc)
   \<and> getLocalCollection k (finishSync rt acc) = getLocalCollection k (fst acc)
   \<and> localQueue (finishSync rt acc) = localQueue (fst acc)
   \<and> gatewayCalls (finishSync rt acc) = gatewayCalls (fst acc)"
  by (cases s) (simp_all add: finishSync_def addNotification_def getLocalCollection_def Let_def)

lemma handleSync_runs:
  "passRuns force st \<Longrightarrow>
   handleSync rt gw force targetSheets st =
     finishSync rt (pullPhase gw targetSheets (drainPhase rt gw (beginSync st)))"
  by (auto simp: handleSync_def passRuns_def)

lemma handleSync_localQueue:
  "passRuns force st \<Longrightarrow>
   getSyncQueue (handleSync rt gw force targetSheets st) =
     filter (\<lambda>x. \<forall>i \<in> set (getSyncQueue st). delivered gw i \<longrightarrow> qid x \<noteq> qid i) (getSyncQueue st)"
  by (simp add: handleSync_runs getSyncQueue_def finishSync_frame pullPhase_frame
      drainPhase_localQueue beginSync_def)

lemma handleSync_listOf:
  "passRuns force st \<Longrightarrow>
   listOf s (handleSync rt gw force targetSheets st) =
     (if targeted targetSheets s
      then (case fetchRemoteSheetData gw s of FetchData d \<Rightarrow> d | _ \<Rightarrow> listOf s st)
      else listOf s st)"
  by (simp add: handleSync_runs finishSync_frame pullPhase_listOf drainPhase_frame beginSync_def
      split: fetch_result.split)

lemma handleSync_stored:
  "passRuns force st \<Longrightarrow>
   getLocalCollection (storageKeyOf s) (handleSync rt gw force targetSheets st) =
     (if targeted targetSheets s
      then (case fetchRemoteSheetData gw s of
              FetchData d \<Rightarrow> d
            | _ \<Rightarrow> getLocalCollection (storageKeyOf s) st)
      else getLocalCollection (storageKeyOf s) st)"
  by (simp add: handleSync_runs finishSync_frame pullPhase_stored drainPhase_frame
      split: fetch_result.split)
     (simp add: getLocalCollection_def beginSync_def)


lemma handleSync_status:
  "passRuns force st \<Longrightarrow> status (handleSync rt gw force targetSheets st) = ONLINE"
  by (simp add: handleSync_runs finishSync_frame)

text \<open>
  C10. When \<^verbatim>\<open>navigator.onLine\<close> is false, \<open>handleSync\<close> returns at once, forced or
  not: the whole state is unchanged, that is the status, the queue, every collection in
  memory and in the store, the notifications, the timers, and the trace of requests to
  the remote service (no request is made).
\<close>

theorem handleSync_offline_no_effect:
  "\<not> navigator_onLine st \<Longrightarrow> handleSync rt gw force targetSheets st = st"
  by (simp add: handleSync_def)

theorem handleSync_offline_no_effect_witness:
  "\<not> navigator_onLine (productEditedOffline\<lparr>navigator_onLine := False\<rparr>)
   \<and> handleSync sampleRuntime (gatewayUp (\<lambda>s. [])) True None
        (productEditedOffline\<lparr>navigator_onLine := False\<rparr>)
       = productEditedOffline\<lparr>navigator_onLine := False\<rparr>"
  using handleSync_offline_no_effect
    [of "productEditedOffline\<lparr>navigator_onLine := False\<rparr>" sampleRuntime
        "gatewayUp (\<lambda>s. [])" True None]
  by simp

text \<open>
  C4. A pass that begins (the browser is online, and the status is not SYNCING unless the
  pass is forced) sets the status to SYNCING and, whatever the remote service answers to
  the deliveries and the fetches, ends with the status ONLINE.
\<close>

theorem handleSync_ends_ONLINE:
  assumes "navigator_onLine st" and "status st \<noteq> SYNCING \<or> force"
  shows "status (beginSync st) = SYNCING
         \<and> status (handleSync rt gw force targetSheets st) = ONLINE"
  using assms by (simp add: handleSync_status passRuns_def beginSync_def)

theorem handleSync_ends_ONLINE_witness:
  "navigator_onLine editedOffline
   \<and> status editedOffline = ONLINE
   \<and> status (beginSync editedOffline) = SYNCING
   \<and> status (handleSync sampleRuntime gatewayProductsDown False None editedOffline) = ONLINE"
  using handleSync_ends_ONLINE [of editedOffline False sampleRuntime gatewayProductsDown None]
  by (simp add: editedOffline_def initialState_def)

text \<open>
  C2. From any state in which the pass begins, if the remote service accepts every
  delivery and answers every fetch with rows, and all four sheets are targeted, then the
  pass ends with the queue empty and with every collection, in memory and in the store,
  equal to the rows the service returned for it.
\<close>

theorem handleSync_full_pass:
  assumes "navigator_onLine st" and "status st \<noteq> SYNCING \<or> force"
    and "\<forall>s p a. postDataToSheet gw s p a"
    and "\<forall>s. fetchRemoteSheetData gw s = FetchData (remote s)"
    and "\<forall>s. targeted targetSheets s"
  shows "getSyncQueue (handleSync rt gw force targetSheets st) = []
         \<and> (\<forall>s. listOf s (handleSync rt gw force targetSheets st) = remote s
                \<and> getLocalCollection (storageKeyOf s) (handleSync rt gw force targetSheets st)
                    = remote s)"
proof -
  from assms(1,2) have r: "passRuns force st"
    by (simp add: passRuns_def)
  have "filter (\<lambda>x. \<forall>i \<in> set (getSyncQueue st). delivered gw i \<longrightarrow> qid x \<noteq> qid i)
          (getSyncQueue st) = []"
    using assms(3) by (auto simp: filter_empty_conv delivered_def)
  then show ?thesis
    using assms(4,5) by (simp add: handleSync_localQueue [OF r] handleSync_listOf [OF r]
        handleSync_stored [OF r])
qed

theorem handleSync_full_pass_witness:
  "navigator_onLine editedOffline
   \<and> status editedOffline = ONLINE
   \<and> getSyncQueue editedOffline = [breadUpdate, aliUpdate]
   \<and> getSyncQueue (handleSync sampleRuntime (gatewayUp (\<lambda>s. [ali])) False None editedOffline) = []
   \<and> products (handleSync sampleRuntime (gatewayUp (\<lambda>s. [ali])) False None editedOffline) = [ali]
   \<and> getLocalCollection STORAGE_KEYS_PRODUCTS
        (handleSync sampleRuntime (gatewayUp (\<lambda>s. [ali])) False None editedOffline) = [ali]"
proof -
  have a: "navigator_onLine editedOffline" "status editedOffline = ONLINE"
    "getSyncQueue editedOffline = [breadUpdate, aliUpdate]"
    by (simp_all add: editedOffline_def initialState_def getSyncQueue_def)
  have b: "\<forall>s p a. postDataToSheet (gatewayUp (\<lambda>s. [ali])) s p a"
    "\<forall>s. fetchRemoteSheetData (gatewayUp (\<lambda>s. [ali])) s = FetchData ((\<lambda>s. [ali]) s)"
    "\<forall>s. targeted None s"
    by (simp_all add: gatewayUp_def targeted_def)
  from a have c: "status editedOffline \<noteq> SYNCING \<or> False"
    by simp
  note t = handleSync_full_pass [OF a(1) c b, of sampleRuntime]
  from t have "listOf Products (handleSync sampleRuntime (gatewayUp (\<lambda>s. [ali])) False None editedOffline) = [ali]"
    and "getLocalCollection (storageKeyOf Products)
        (handleSync sampleRuntime (gatewayUp (\<lambda>s. [ali])) False None editedOffline) = [ali]"
    by blast+
  with a t show ?thesis
    by simp
qed




section \<open>Recording a sale\<close>

lemma STORAGE_KEYS_distinct [simp]:
  "STORAGE_KEYS_PRODUCTS \<noteq> STORAGE_KEYS_SALES" "STORAGE_KEYS_SALES \<noteq> STORAGE_KEYS_PRODUCTS"
  "STORAGE_KEYS_PRODUCTS \<noteq> STORAGE_KEYS_CUSTOMERS" "STORAGE_KEYS_CUSTOMERS \<noteq> STORAGE_KEYS_PRODUCTS"
  "STORAGE_KEYS_SALES \<noteq> STORAGE_KEYS_CUSTOMERS" "STORAGE_KEYS_CUSTOMERS \<noteq> STORAGE_KEYS_SALES"
  by (simp_all add: STORAGE_KEYS_PRODUCTS_def STORAGE_KEYS_SALES_def STORAGE_KEYS_CUSTOMERS_def)

lemma createSale_effect:
  "sales (createSale rt saleData st) = newSale rt saleData # sales st
   \<and> products (createSale rt saleData st) = products st
   \<and> customers (createSale rt saleData st) = customers st
   \<and> getLocalCollection k (createSale rt saleData st) =
       (if k = STORAGE_KEYS_SALES then newSale rt saleData # sales st else getLocalCollection k st)"
  by (simp add: createSale_def Let_def addToSyncQueue_def saveLocalCollection_def setSales_def
      getLocalCollection_def)

lemma decrementStock_found:
  assumes "find (\<lambda>p. strict_eq (field p ''Name'') (field saleData ''ProductName'')) ps = Some p"
  shows "products (decrementStock rt ps saleData st) =
           replaceById (updatedProduct rt p saleData) (getLocalCollection STORAGE_KEYS_PRODUCTS st)
         \<and> sales (decrementStock rt ps saleData st) = sales st
         \<and> customers (decrementStock rt ps saleData st) = customers st
         \<and> getLocalCollection k (decrementStock rt ps saleData st) =
             (if k = STORAGE_KEYS_PRODUCTS
              then replaceById (updatedProduct rt p saleData)
                     (getLocalCollection STORAGE_KEYS_PRODUCTS st)
              else getLocalCollection k st)"
  using assms
  by (simp add: decrementStock_def Let_def addToSyncQueue_def saveLocalCollection_def
      setProducts_def getLocalCollection_def updateLocalItem_def)

lemma decrementStock_frame:
  "sales (decrementStock rt ps saleData st) = sales st
   \<and> customers (decrementStock rt ps saleData st) = customers st
   \<and> getLocalCollection STORAGE_KEYS_SALES (decrementStock rt ps saleData st)
       = getLocalCollection STORAGE_KEYS_SALES st
   \<and> getLocalCollection STORAGE_KEYS_CUSTOMERS (decrementStock rt ps saleData st)
       = getLocalCollection STORAGE_KEYS_CUSTOMERS st"
  by (simp add: decrementStock_def Let_def addToSyncQueue_def saveLocalCollection_def
      setProducts_def getLocalCollection_def updateLocalItem_def split: option.split)

lemma replaceById_idem [simp]: "replaceById u (replaceById u xs) = replaceById u xs"
  by (induction xs) (simp_all add: replaceById_def)

lemma upsertCustomer_found:
  assumes "find (\<lambda>c. strict_eq (field c ''Phone'') (field customerData ''Phone'')) cs = Some c"
  shows "customers (upsertCustomer rt cs saleData customerData st) =
           replaceById (updatedCustomer rt c saleData customerData)
             (getLocalCollection STORAGE_KEYS_CUSTOMERS st)
         \<and> sales (upsertCustomer rt cs saleData customerData st) = sales st
         \<and> products (upsertCustomer rt cs saleData customerData st) = products st
         \<and> getLocalCollection k (upsertCustomer rt cs saleData customerData st) =
             (if k = STORAGE_KEYS_CUSTOMERS
              then replaceById (updatedCustomer rt c saleData customerData)
                     (getLocalCollection STORAGE_KEYS_CUSTOMERS st)
              else getLocalCollection k st)"
  using assms
  by (simp add: upsertCustomer_def Let_def addToSyncQueue_def saveLocalCollection_def
      setCustomers_def getLocalCollection_def updateLocalItem_def)

lemma upsertCustomer_frame:
  "sales (upsertCustomer rt cs saleData customerData st) = sales st
   \<and> products (upsertCustomer rt cs saleData customerData st) = products st
   \<and> getLocalCollection STORAGE_KEYS_SALES (upsertCustomer rt cs saleData customerData st)
       = getLocalCollection STORAGE_KEYS_SALES st
   \<and> getLocalCollection STORAGE_KEYS_PRODUCTS (upsertCustomer rt cs saleData customerData st)
       = getLocalCollection STORAGE_KEYS_PRODUCTS st"
  by (simp add: upsertCustomer_def Let_def addToSyncQueue_def saveLocalCollection_def
      setCustomers_def getLocalCollection_def updateLocalItem_def split: option.split)

lemma finish_frame [simp]:
  "products (scheduleSync ts (refreshQueueCount st)) = products st"
  "sales (scheduleSync ts (refreshQueueCount st)) = sales st"
  "customers (scheduleSync ts (refreshQueueCount st)) = customers st"
  "expenses (scheduleSync ts (refreshQueueCount st)) = expenses st"
  "getLocalCollection k (scheduleSync ts (refreshQueueCount st)) = getLocalCollection k st"
  "getSyncQueue (scheduleSync ts (refreshQueueCount st)) = getSyncQueue st"
  by (simp_all add: scheduleSync_def refreshQueueCount_def getLocalCollection_def getSyncQueue_def)

lemma find_Some_mem: "find P xs = Some x \<Longrightarrow> x \<in> set xs \<and> P x"
  by (induction xs) (auto split: if_splits)

lemma replaceById_mem:
  "x \<in> set xs \<Longrightarrow> field x ''id'' = field u ''id'' \<Longrightarrow> u \<in> set (replaceById u xs)"
  by (induction xs) (auto simp: replaceById_def)

lemma replaceById_same_id:
  "y \<in> set (replaceById u xs) \<Longrightarrow> field y ''id'' = field u ''id'' \<Longrightarrow> y = u"
  by (induction xs) (auto simp: replaceById_def split: if_splits)

lemma updatedProduct_fields:
  "field (updatedProduct rt p saleData) ''id'' = field p ''id''"
  "field (updatedProduct rt p saleData) ''Name'' = field p ''Name''"
  "field (updatedProduct rt p saleData) ''Stock'' =
     Math_max0 (js_minus rt (field p ''Stock'') (field saleData ''Quantity''))"
  by (simp_all add: updatedProduct_def field_def)

text \<open>
  C5. Let the in-memory products be those of the store, let \<open>p\<close> be the first product
  whose name is the sale's product name, with the number \<open>stock\<close> as its stock, and let
  the sale's quantity be the number \<open>quantity\<close>. After \<open>handleSaleSubmit\<close> the product is
  replaced in place (in memory and in the store) by a record with the same id and name
  whose stock is \<open>max 0 (stock - quantity)\<close>, so every product with that id has that
  stock, never a negative one; and a new sale with the given quantity heads the sales,
  in memory and in the store.
\<close>

theorem handleSaleSubmit_decrements_stock:
  assumes "getLocalCollection STORAGE_KEYS_PRODUCTS st = products st"
    and "find (\<lambda>p. strict_eq (field p ''Name'') (field saleData ''ProductName'')) (products st)
           = Some p"
    and "field p ''Stock'' = JNumber stock"
    and "field saleData ''Quantity'' = JNumber quantity"
  shows "products (handleSaleSubmit rt saleData customerData st)
           = replaceById (updatedProduct rt p saleData) (products st)
         \<and> getLocalCollection STORAGE_KEYS_PRODUCTS (handleSaleSubmit rt saleData customerData st)
           = replaceById (updatedProduct rt p saleData) (products st)
         \<and> updatedProduct rt p saleData \<in> set (products (handleSaleSubmit rt saleData customerData st))
         \<and> field (updatedProduct rt p saleData) ''Stock'' = JNumber (max 0 (stock - quantity))
         \<and> field (updatedProduct rt p saleData) ''Name'' = field p ''Name''
         \<and> (\<forall>x \<in> set (products (handleSaleSubmit rt saleData customerData st)).
               field x ''id'' = field p ''id'' \<longrightarrow>
               field x ''Stock'' = JNumber (max 0 (stock - quantity)))
         \<and> sales (handleSaleSubmit rt saleData customerData st) = newSale rt saleData # sales st
         \<and> getLocalCollection STORAGE_KEYS_SALES (handleSaleSubmit rt saleData customerData st)
           = newSale rt saleData # sales st
         \<and> field (newSale rt saleData) ''Quantity'' = JNumber quantity"
proof -
  let ?u = "updatedProduct rt p saleData"
  let ?st' = "handleSaleSubmit rt saleData customerData st"
  have cs: "products (createSale rt saleData st) = products st"
    "getLocalCollection STORAGE_KEYS_PRODUCTS (createSale rt saleData st) = products st"
    by (simp_all add: createSale_effect assms(1))
  have p: "products ?st' = replaceById ?u (products st)"
    by (simp add: handleSaleSubmit_def upsertCustomer_frame decrementStock_found [OF assms(2)] cs)
  have g: "getLocalCollection STORAGE_KEYS_PRODUCTS ?st' = replaceById ?u (products st)"
    by (simp add: handleSaleSubmit_def upsertCustomer_frame decrementStock_found [OF assms(2)] cs)
  have stock: "field ?u ''Stock'' = JNumber (max 0 (stock - quantity))"
    by (simp add: updatedProduct_fields js_minus_def assms(3,4))
  from find_Some_mem [OF assms(2)] have "p \<in> set (products st)"
    by simp
  then have m: "?u \<in> set (products ?st')"
    unfolding p by (rule replaceById_mem) (simp add: updatedProduct_fields)
  have a: "\<forall>x \<in> set (products ?st'). field x ''id'' = field p ''id'' \<longrightarrow>
             field x ''Stock'' = JNumber (max 0 (stock - quantity))"
  proof (intro ballI impI)
    fix x
    assume "x \<in> set (products ?st')" and "field x ''id'' = field p ''id''"
    then have "x = ?u"
      using replaceById_same_id [of x ?u "products st"]
      by (simp add: p updatedProduct_fields)
    with stock show "field x ''Stock'' = JNumber (max 0 (stock - quantity))"
      by simp
  qed
  have s: "sales ?st' = newSale rt saleData # sales st"
    by (simp add: handleSaleSubmit_def upsertCustomer_frame decrementStock_frame createSale_effect)
  have gs: "getLocalCollection STORAGE_KEYS_SALES ?st' = newSale rt saleData # sales st"
    by (simp add: handleSaleSubmit_def upsertCustomer_frame decrementStock_frame createSale_effect)
  have q: "field (newSale rt saleData) ''Quantity'' = JNumber quantity"
    using assms(4) by (auto simp: newSale_def field_def map_add_def split: option.splits)
  from p g m stock a s gs q show ?thesis
    by (simp add: updatedProduct_fields)
qed


theorem handleSaleSubmit_decrements_stock_witness:
  "getLocalCollection STORAGE_KEYS_PRODUCTS shop = products shop
   \<and> find (\<lambda>p. strict_eq (field p ''Name'') (field (breadSale 3 15) ''ProductName''))
         (products shop) = Some bread
   \<and> field bread ''Stock'' = JNumber 10
   \<and> field (breadSale 3 15) ''Quantity'' = JNumber 3
   \<and> field (breadSale 20 100) ''Quantity'' = JNumber 20
   \<and> products (handleSaleSubmit sampleRuntime (breadSale 3 15) aliContact shop)
       = [updatedProduct sampleRuntime bread (breadSale 3 15)]
   \<and> field (updatedProduct sampleRuntime bread (breadSale 3 15)) ''Stock'' = JNumber 7
   \<and> products (handleSaleSubmit sampleRuntime (breadSale 20 100) aliContact shop)
       = [updatedProduct sampleRuntime bread (breadSale 20 100)]
   \<and> field (updatedProduct sampleRuntime bread (breadSale 20 100)) ''Stock'' = JNumber 0
   \<and> field (hd (sales (handleSaleSubmit sampleRuntime (breadSale 3 15) aliContact shop)))
        ''Quantity'' = JNumber 3"
proof -
  have a: "getLocalCollection STORAGE_KEYS_PRODUCTS shop = products shop"
    "products shop = [bread]"
    by (simp_all add: shop_def initialState_def getLocalCollection_def)
  have f: "find (\<lambda>p. strict_eq (field p ''Name'') (field (breadSale q t) ''ProductName''))
         (products shop) = Some bread" for q t
    by (simp add: a bread_def breadSale_def field_def strict_eq_def)
  have b: "field bread ''Stock'' = JNumber 10"
    by (simp add: bread_def field_def)
  have q: "field (breadSale q t) ''Quantity'' = JNumber q" for q t
    by (simp add: breadSale_def field_def)
  have i: "replaceById u [bread] = [u]" if "field u ''id'' = field bread ''id''" for u
    using that by (simp add: replaceById_def)
  note t3 = handleSaleSubmit_decrements_stock
    [OF a(1) f [of 3 15] b q [of 3 15], where rt = sampleRuntime and customerData = aliContact]
  note t20 = handleSaleSubmit_decrements_stock
    [OF a(1) f [of 20 100] b q [of 20 100], where rt = sampleRuntime and customerData = aliContact]
  from t3 t20 f b q a show ?thesis
    by (simp add: i updatedProduct_fields)
qed

lemma updatedCustomer_fields:
  "field (updatedCustomer rt c saleData customerData) ''id'' = field c ''id''"
  "field (updatedCustomer rt c saleData customerData) ''Phone'' = field c ''Phone''"
  "field (updatedCustomer rt c saleData customerData) ''Name'' = field c ''Name''"
  "field (updatedCustomer rt c saleData customerData) ''LastPurchase'' = JString (formatDateTime rt)"
  "field (updatedCustomer rt c saleData customerData) ''TotalPurchases'' =
     js_plus (Number rt (js_or (field c ''TotalPurchases'') (JNumber 0)))
             (Number rt (field saleData ''Total''))"
  "field (updatedCustomer rt c saleData customerData) ''Email'' =
     field (updatedCustomer rt c saleData customerData) ''Address''"
  by (simp_all add: updatedCustomer_def field_def)

lemma find_replaceById:
  assumes "find P xs = Some c" and "P u" and "field u ''id'' = field c ''id''"
  shows "find P (replaceById u xs) = Some u"
  using assms
proof (induction xs)
  case Nil
  then show ?case by simp
next
  case (Cons x xs)
  show ?case
  proof (cases "P x")
    case True
    with Cons.prems have "x = c" by simp
    with Cons.prems show ?thesis
      by (simp add: replaceById_def)
  next
    case False
    with Cons.prems have "find P xs = Some c" by simp
    with Cons.IH Cons.prems have "find P (replaceById u xs) = Some u" by simp
    with False Cons.prems show ?thesis
      by (simp add: replaceById_def)
  qed
qed

text \<open>
  C6. Let the in-memory customers be those of the store, let \<open>c\<close> be the first customer
  whose phone is the phone of the sale's customer data, with cumulative total \<open>previous\<close>
  (0 when it has none), and let the sale's total be the number \<open>amount\<close>. After
  \<open>handleSaleSubmit\<close> no customer is added: the list keeps its length, and the record is
  replaced in place (in memory and in the store) by one with the same id and phone,
  cumulative total \<open>previous + amount\<close> and the current instant as last purchase. That
  record is then the first customer with this phone, so the next sale for the phone adds
  to its total in the same way.
\<close>

theorem handleSaleSubmit_existing_customer:
  assumes "getLocalCollection STORAGE_KEYS_CUSTOMERS st = customers st"
    and "find (\<lambda>c. strict_eq (field c ''Phone'') (field customerData ''Phone'')) (customers st)
           = Some c"
    and "field c ''TotalPurchases'' = JNumber previous
         \<or> field c ''TotalPurchases'' = JUndefined \<and> previous = 0"
    and "field saleData ''Total'' = JNumber amount"
  shows "customers (handleSaleSubmit rt saleData customerData st)
           = replaceById (updatedCustomer rt c saleData customerData) (customers st)
         \<and> getLocalCollection STORAGE_KEYS_CUSTOMERS (handleSaleSubmit rt saleData customerData st)
           = replaceById (updatedCustomer rt c saleData customerData) (customers st)
         \<and> length (customers (handleSaleSubmit rt saleData customerData st))
           = length (customers st)
         \<and> updatedCustomer rt c saleData customerData
             \<in> set (customers (handleSaleSubmit rt saleData customerData st))
         \<and> field (updatedCustomer rt c saleData customerData) ''TotalPurchases''
           = JNumber (previous + amount)
         \<and> field (updatedCustomer rt c saleData customerData) ''LastPurchase''
           = JString (formatDateTime rt)
         \<and> field (updatedCustomer rt c saleData customerData) ''Phone'' = field c ''Phone''
         \<and> field (updatedCustomer rt c saleData customerData) ''id'' = field c ''id''
         \<and> find (\<lambda>c. strict_eq (field c ''Phone'') (field customerData ''Phone''))
               (customers (handleSaleSubmit rt saleData customerData st))
             = Some (updatedCustomer rt c saleData customerData)"
proof -
  let ?u = "updatedCustomer rt c saleData customerData"
  let ?st' = "handleSaleSubmit rt saleData customerData st"
  have cs: "customers (decrementStock rt (products st) saleData (createSale rt saleData st))
              = customers st"
    "getLocalCollection STORAGE_KEYS_CUSTOMERS
       (decrementStock rt (products st) saleData (createSale rt saleData st)) = customers st"
    by (simp_all add: decrementStock_frame createSale_effect assms(1))
  have p: "customers ?st' = replaceById ?u (customers st)"
    by (simp add: handleSaleSubmit_def upsertCustomer_found [OF assms(2)] cs)
  have g: "getLocalCollection STORAGE_KEYS_CUSTOMERS ?st' = replaceById ?u (customers st)"
    by (simp add: handleSaleSubmit_def upsertCustomer_found [OF assms(2)] cs)
  have l: "length (customers ?st') = length (customers st)"
    by (simp add: p replaceById_def)
  from find_Some_mem [OF assms(2)] have "c \<in> set (customers st)"
    by simp
  then have m: "?u \<in> set (customers ?st')"
    unfolding p by (rule replaceById_mem) (simp add: updatedCustomer_fields)
  have t: "field ?u ''TotalPurchases'' = JNumber (previous + amount)"
    using assms(3,4)
    by (auto simp: updatedCustomer_fields js_or_def Number_def number_def)
  from find_Some_mem [OF assms(2)]
  have "strict_eq (field ?u ''Phone'') (field customerData ''Phone'')"
    by (simp add: updatedCustomer_fields)
  then have f: "find (\<lambda>c. strict_eq (field c ''Phone'') (field customerData ''Phone''))
      (customers ?st') = Some ?u"
    unfolding p by (rule find_replaceById [OF assms(2)]) (simp add: updatedCustomer_fields)
  from p g l m t f show ?thesis
    by (simp add: updatedCustomer_fields)
qed

lemma upsertCustomer_new:
  assumes "find (\<lambda>c. strict_eq (field c ''Phone'') (field customerData ''Phone'')) cs = None"
  shows "customers (upsertCustomer rt cs saleData customerData st) = newCustomer rt customerData # cs
         \<and> getLocalCollection STORAGE_KEYS_CUSTOMERS (upsertCustomer rt cs saleData customerData st)
             = newCustomer rt customerData # cs"
  using assms
  by (simp add: upsertCustomer_def Let_def addToSyncQueue_def saveLocalCollection_def
      setCustomers_def getLocalCollection_def)

lemma handleSaleSubmit_new_customer:
  assumes "find (\<lambda>c. strict_eq (field c ''Phone'') (field customerData ''Phone'')) (customers st)
             = None"
  shows "customers (handleSaleSubmit rt saleData customerData st)
           = newCustomer rt customerData # customers st
         \<and> getLocalCollection STORAGE_KEYS_CUSTOMERS (handleSaleSubmit rt saleData customerData st)
           = newCustomer rt customerData # customers st"
  by (simp add: handleSaleSubmit_def upsertCustomer_new [OF assms])

theorem handleSaleSubmit_existing_customer_witness:
  "getLocalCollection STORAGE_KEYS_CUSTOMERS shop = customers shop
   \<and> find (\<lambda>c. strict_eq (field c ''Phone'') (field aliContact ''Phone'')) (customers shop)
       = Some ali
   \<and> field ali ''TotalPurchases'' = JNumber 50
   \<and> customers (handleSaleSubmit laterRuntime (breadSale 6 30) aliContact shop)
       = [updatedCustomer laterRuntime ali (breadSale 6 30) aliContact]
   \<and> field (updatedCustomer laterRuntime ali (breadSale 6 30) aliContact) ''TotalPurchases''
       = JNumber 80
   \<and> customers (initialState True) = []
   \<and> customers firstVisit = [newCustomer sampleRuntime aliFirstVisit]
   \<and> getLocalCollection STORAGE_KEYS_CUSTOMERS firstVisit = customers firstVisit
   \<and> field (newCustomer sampleRuntime aliFirstVisit) ''TotalPurchases'' = JNumber 50
   \<and> field (breadSale 6 30) ''Total'' = JNumber 30
   \<and> length (customers secondVisit) = 1
   \<and> field (hd (customers secondVisit)) ''TotalPurchases'' = JNumber 80
   \<and> field (hd (customers secondVisit)) ''Phone'' = JString ''0600000000''
   \<and> field (hd (customers secondVisit)) ''LastPurchase'' = JString ''14/11/2023 22:23:20''"
proof -
  let ?c = "newCustomer sampleRuntime aliFirstVisit"
  have e: "customers (initialState True) = []"
    by (simp add: initialState_def)
  then have n: "find (\<lambda>c. strict_eq (field c ''Phone'') (field aliFirstVisit ''Phone''))
      (customers (initialState True)) = None"
    by simp
  note first = handleSaleSubmit_new_customer
    [OF n, where rt = sampleRuntime and saleData = "breadSale 10 50"]
  from first e have a: "customers firstVisit = [?c]"
    "getLocalCollection STORAGE_KEYS_CUSTOMERS firstVisit = customers firstVisit"
    by (simp_all add: firstVisit_def)
  have ph: "field ?c ''Phone'' = JString ''0600000000''"
    "field aliContact ''Phone'' = JString ''0600000000''"
    by (simp_all add: newCustomer_def aliFirstVisit_def aliContact_def field_def)
  then have f: "find (\<lambda>c. strict_eq (field c ''Phone'') (field aliContact ''Phone''))
      (customers firstVisit) = Some ?c"
    by (simp add: a strict_eq_def)
  have tp: "field ?c ''TotalPurchases'' = JNumber 50
            \<or> field ?c ''TotalPurchases'' = JUndefined \<and> (50::int) = 0"
    by (simp add: newCustomer_def aliFirstVisit_def aliContact_def field_def)
  have am: "field (breadSale 6 30) ''Total'' = JNumber 30"
    by (simp add: breadSale_def field_def)
  note second = handleSaleSubmit_existing_customer [OF a(2) f tp am, where rt = laterRuntime]
  have r: "replaceById u [?c] = [u]" if "field u ''id'' = field ?c ''id''" for u
    using that by (simp add: replaceById_def)
  from second
  have v: "customers secondVisit = [updatedCustomer laterRuntime ?c (breadSale 6 30) aliContact]"
    by (simp add: secondVisit_def a r)
  have sa: "getLocalCollection STORAGE_KEYS_CUSTOMERS shop = customers shop"
    "customers shop = [ali]"
    by (simp_all add: shop_def initialState_def getLocalCollection_def
        STORAGE_KEYS_PRODUCTS_def STORAGE_KEYS_CUSTOMERS_def)
  have sf: "find (\<lambda>c. strict_eq (field c ''Phone'') (field aliContact ''Phone'')) (customers shop)
       = Some ali"
    by (simp add: sa ali_def aliContact_def field_def strict_eq_def)
  have st: "field ali ''TotalPurchases'' = JNumber 50
            \<or> field ali ''TotalPurchases'' = JUndefined \<and> (50::int) = 0"
    by (simp add: ali_def field_def)
  note known = handleSaleSubmit_existing_customer [OF sa(1) sf st am, where rt = laterRuntime]
  have ra: "replaceById u [ali] = [u]" if "field u ''id'' = field ali ''id''" for u
    using that by (simp add: replaceById_def)
  from known
  have k: "customers (handleSaleSubmit laterRuntime (breadSale 6 30) aliContact shop)
       = [updatedCustomer laterRuntime ali (breadSale 6 30) aliContact]"
    "field (updatedCustomer laterRuntime ali (breadSale 6 30) aliContact) ''TotalPurchases''
       = JNumber 80"
    by (simp_all add: sa ra)
  have t50: "field ali ''TotalPurchases'' = JNumber 50"
    by (simp add: ali_def field_def)
  from v second e a tp am ph sa sf t50 k show ?thesis
    by (simp add: laterRuntime_def)
qed

section \<open>The customer mapping\<close>

lemma enqueue_list_all: "P e \<Longrightarrow> list_all P q \<Longrightarrow> list_all P (enqueue e q)"
  by (auto simp: enqueue_def list_all_iff)

lemma replaceById_list_all: "P u \<Longrightarrow> list_all P xs \<Longrightarrow> list_all P (replaceById u xs)"
  by (auto simp: replaceById_def list_all_iff)

lemma mirrored_newItem: "mirrored (newItem rt Customers formData)"
  by (simp add: mirrored_def newItem_def Let_def field_def map_add_def split: option.split)

lemma mirrored_updatedItem: "mirrored (updatedItem rt Customers editing formData)"
  by (simp add: mirrored_def updatedItem_def Let_def field_def js_or_def map_add_def
      split: option.split)

lemma mirrored_updatedCustomer: "mirrored (updatedCustomer rt c saleData customerData)"
  by (simp add: mirrored_def updatedCustomer_fields)

lemma mirrored_newCustomer: "mirrored (newCustomer rt customerData)"
  by (simp add: mirrored_def newCustomer_def field_def map_add_def split: option.split)


lemma queue_customers_other_sheet:
  "sh \<noteq> Customers \<Longrightarrow>
   list_all (\<lambda>e. sheet e = Customers \<longrightarrow> mirrored (payload e)) q \<Longrightarrow>
   list_all (\<lambda>e. sheet e = Customers \<longrightarrow> mirrored (payload e))
     (enqueue \<lparr>qid = i, action = a, sheet = sh, payload = p, timestamp = t\<rparr> q)"
  by (rule enqueue_list_all) simp_all

lemma queue_customers_mirrored:
  "mirrored p \<Longrightarrow>
   list_all (\<lambda>e. sheet e = Customers \<longrightarrow> mirrored (payload e)) q \<Longrightarrow>
   list_all (\<lambda>e. sheet e = Customers \<longrightarrow> mirrored (payload e))
     (enqueue \<lparr>qid = i, action = a, sheet = sh, payload = p, timestamp = t\<rparr> q)"
  by (rule enqueue_list_all) simp_all

lemma createSale_customersMirrored:
  "customersMirrored st \<Longrightarrow> customersMirrored (createSale rt saleData st)"
  by (simp add: customersMirrored_def createSale_def Let_def addToSyncQueue_def
      saveLocalCollection_def setSales_def getLocalCollection_def getSyncQueue_def
      queue_customers_other_sheet)

lemma decrementStock_customersMirrored:
  "customersMirrored st \<Longrightarrow> customersMirrored (decrementStock rt ps saleData st)"
  by (simp add: customersMirrored_def decrementStock_def Let_def addToSyncQueue_def
      saveLocalCollection_def setProducts_def getLocalCollection_def getSyncQueue_def
      updateLocalItem_def queue_customers_other_sheet split: option.split)

lemma upsertCustomer_customersMirrored:
  assumes "customersMirrored st" and "list_all mirrored cs"
  shows "customersMirrored (upsertCustomer rt cs saleData customerData st)"
  using assms
  by (simp add: customersMirrored_def upsertCustomer_def Let_def addToSyncQueue_def
      saveLocalCollection_def setCustomers_def getLocalCollection_def getSyncQueue_def
      updateLocalItem_def queue_customers_mirrored replaceById_list_all
      mirrored_updatedCustomer mirrored_newCustomer split: option.split)

lemma finish_customersMirrored:
  "customersMirrored (scheduleSync ts (refreshQueueCount st)) = customersMirrored st"
  by (simp add: customersMirrored_def)

lemma handleSaleSubmit_customersMirrored:
  assumes "customersMirrored st"
  shows "customersMirrored (handleSaleSubmit rt saleData customerData st)"
proof -
  from assms have "list_all mirrored (customers st)"
    by (simp add: customersMirrored_def)
  with assms show ?thesis
    by (simp add: handleSaleSubmit_def finish_customersMirrored upsertCustomer_customersMirrored
        decrementStock_customersMirrored createSale_customersMirrored)
qed

lemma handleSaveItem_customersMirrored:
  assumes "customersMirrored st"
  shows "customersMirrored (handleSaveItem rt formData st)"
proof (cases "editingItem st")
  case None
  with assms show ?thesis
    by (cases "activeTab st")
       (simp_all add: handleSaveItem_def scheduleSync_def refreshQueueCount_def customersMirrored_def Let_def
          addToSyncQueue_def saveLocalCollection_def getLocalCollection_def getSyncQueue_def
          setProducts_def setSales_def setExpenses_def setCustomers_def
          STORAGE_KEYS_PRODUCTS_def STORAGE_KEYS_SALES_def STORAGE_KEYS_EXPENSES_def
          STORAGE_KEYS_CUSTOMERS_def
          queue_customers_other_sheet queue_customers_mirrored mirrored_newItem)
next
  case (Some editing)
  with assms show ?thesis
    by (cases "activeTab st")
       (simp_all add: handleSaveItem_def scheduleSync_def refreshQueueCount_def customersMirrored_def Let_def
          addToSyncQueue_def saveLocalCollection_def getLocalCollection_def getSyncQueue_def
          updateLocalItem_def
          setProducts_def setSales_def setExpenses_def setCustomers_def
          STORAGE_KEYS_PRODUCTS_def STORAGE_KEYS_SALES_def STORAGE_KEYS_EXPENSES_def
          STORAGE_KEYS_CUSTOMERS_def
          queue_customers_other_sheet queue_customers_mirrored mirrored_updatedItem
          replaceById_list_all)
qed

text \<open>
  C8. Every customer record the component writes has its \<open>Email\<close> equal to its
  \<open>Address\<close>: the record added and the record updated by \<open>handleSaveItem\<close> on the
  Customers tab, and the record updated and the record created by the customer step of
  \<open>handleSaleSubmit\<close>. Hence, if all customers held in memory, in the store and in the
  queue are mirrored, they still are after \<open>handleSaveItem\<close> and after
  \<open>handleSaleSubmit\<close>.
\<close>

theorem customer_Email_mirrors_Address:
  "mirrored (newItem rt Customers formData)
   \<and> mirrored (updatedItem rt Customers editing formData)
   \<and> mirrored (updatedCustomer rt c saleData customerData)
   \<and> mirrored (newCustomer rt customerData)
   \<and> (customersMirrored st \<longrightarrow>
        customersMirrored (handleSaveItem rt formData st)
        \<and> customersMirrored (handleSaleSubmit rt saleData customerData st))"
  by (simp add: mirrored_newItem mirrored_updatedItem mirrored_updatedCustomer
      mirrored_newCustomer handleSaveItem_customersMirrored handleSaleSubmit_customersMirrored)

theorem customer_Email_mirrors_Address_witness:
  "customersMirrored customersTab
   \<and> customersMirrored (handleSaveItem sampleRuntime aliContact customersTab)
   \<and> customersMirrored (handleSaleSubmit sampleRuntime (breadSale 3 15) aliContact customersTab)
   \<and> field (updatedCustomer sampleRuntime ali (breadSale 3 15) aliContact) ''Address''
       = JString ''Sale''
   \<and> field (updatedCustomer sampleRuntime ali (breadSale 3 15) aliContact) ''Email''
       = JString ''Sale''"
proof -
  have m: "customersMirrored customersTab"
    by (simp add: customersMirrored_def customersTab_def shop_def initialState_def
        getLocalCollection_def getSyncQueue_def mirrored_def ali_def field_def
        STORAGE_KEYS_PRODUCTS_def STORAGE_KEYS_CUSTOMERS_def)
  note t = customer_Email_mirrors_Address
    [where st = customersTab and rt = sampleRuntime and formData = aliContact
       and saleData = "breadSale 3 15" and customerData = aliContact and c = ali]
  have a: "field (updatedCustomer sampleRuntime ali (breadSale 3 15) aliContact) ''Address''
       = JString ''Sale''"
    by (simp add: updatedCustomer_def field_def aliContact_def js_or_def)
  from t have "mirrored (updatedCustomer sampleRuntime ali (breadSale 3 15) aliContact)"
    by simp
  with a have e: "field (updatedCustomer sampleRuntime ali (breadSale 3 15) aliContact) ''Email''
       = JString ''Sale''"
    by (simp add: mirrored_def)
  from t m a e show ?thesis
    by simp
qed

section \<open>Deleting a record\<close>

lemma queueDelete_found:
  assumes "find (\<lambda>x. strict_eq (field x ''id'') (JString i)) xs = Some r"
  shows "queueDelete rt i sh xs st =
           (filter (\<lambda>x. \<not> strict_eq (field x ''id'') (JString i)) xs,
            addToSyncQueue (deleteEntry rt sh r) st)"
  using assms by (simp add: queueDelete_def deleteEntry_def)

lemma executeDelete_found:
  assumes "deleteConfirmation_id st = Some i" and "i \<noteq> []"
    and "deleteConfirmation_sheet st = Some sh"
    and "find (\<lambda>x. strict_eq (field x ''id'') (JString i)) (listOf sh st) = Some r"
  shows "listOf sh (executeDelete rt st)
           = filter (\<lambda>x. \<not> strict_eq (field x ''id'') (JString i)) (listOf sh st)"
    and "getLocalCollection (storageKeyOf sh) (executeDelete rt st)
           = filter (\<lambda>x. \<not> strict_eq (field x ''id'') (JString i)) (listOf sh st)"
    and "getSyncQueue (executeDelete rt st) = enqueue (deleteEntry rt sh r) (getSyncQueue st)"
  using assms
  by (cases sh;
      simp add: executeDelete_def queueDelete_found Let_def scheduleSync_def refreshQueueCount_def
        addToSyncQueue_def saveLocalCollection_def getLocalCollection_def getSyncQueue_def
        setProducts_def setSales_def setExpenses_def setCustomers_def)+

text \<open>
  C7 (amended). Let the user have confirmed the deletion of the id \<open>i\<close> in the sheet
  \<open>sh\<close>, let \<open>r\<close> be the first record of that sheet with this id, and let the queue hold
  at most one entry per key. Then \<open>executeDelete\<close> performs one enqueue, after which the
  queue holds exactly one entry for (\<open>sh\<close>, \<open>i\<close>): a DELETE whose payload is \<open>r\<close> with its
  \<open>ID\<close> set to \<open>r.ID || r.id\<close>. The payload agrees with \<open>r\<close> on every other property,
  is \<open>r\<close> itself when \<open>r\<close> has a truthy \<open>ID\<close>, and carries the id \<open>i\<close> and a truthy
  \<open>ID\<close>. At once, before any sync pass, the in-memory collection is the old one without
  the records of id \<open>i\<close> (so without \<open>r\<close>), and the store holds the same list.
\<close>

theorem executeDelete_enqueues_one_DELETE:
  assumes "deleteConfirmation_id st = Some i" and "i \<noteq> []"
    and "deleteConfirmation_sheet st = Some sh"
    and "find (\<lambda>x. strict_eq (field x ''id'') (JString i)) (listOf sh st) = Some r"
    and "distinct (map qkey (getSyncQueue st))"
  shows "getSyncQueue (executeDelete rt st) = enqueue (deleteEntry rt sh r) (getSyncQueue st)
         \<and> filter (\<lambda>e. qkey e = (sh, JString i)) (getSyncQueue (executeDelete rt st))
             = [deleteEntry rt sh r]
         \<and> action (deleteEntry rt sh r) = DELETE
         \<and> payload (deleteEntry rt sh r)
             = r(''ID'' \<mapsto> js_or (field r ''ID'') (field r ''id''))
         \<and> (\<forall>k. k \<noteq> ''ID'' \<longrightarrow> payload (deleteEntry rt sh r) k = r k)
         \<and> (truthy (field r ''ID'') \<longrightarrow> payload (deleteEntry rt sh r) = r)
         \<and> field (payload (deleteEntry rt sh r)) ''id'' = JString i
         \<and> truthy (field (payload (deleteEntry rt sh r)) ''ID'')
         \<and> listOf sh (executeDelete rt st)
             = filter (\<lambda>x. \<not> strict_eq (field x ''id'') (JString i)) (listOf sh st)
         \<and> getLocalCollection (storageKeyOf sh) (executeDelete rt st)
             = listOf sh (executeDelete rt st)
         \<and> r \<notin> set (listOf sh (executeDelete rt st))
         \<and> (\<forall>x \<in> set (listOf sh (executeDelete rt st)). field x ''id'' \<noteq> JString i)"
proof -
  note e = executeDelete_found [OF assms(1-4), of rt]
  from find_Some_mem [OF assms(4)] have rid: "field r ''id'' = JString i"
    by (simp add: strict_eq_def)
  then have k: "qkey (deleteEntry rt sh r) = (sh, JString i)"
    by (simp add: qkey_def deleteEntry_def)
  have one: "filter (\<lambda>e. qkey e = (sh, JString i)) (getSyncQueue (executeDelete rt st))
      = [deleteEntry rt sh r]"
    using enqueue_filter_same [OF assms(5), of "deleteEntry rt sh r"]
    by (simp add: e(3) k)
  have pid: "field (payload (deleteEntry rt sh r)) ''id'' = JString i"
    using rid by (simp add: deleteEntry_def field_def)
  have pID: "truthy (field (payload (deleteEntry rt sh r)) ''ID'')"
    using rid assms(2) by (simp add: deleteEntry_def field_def js_or_def)
  have same: "truthy (field r ''ID'') \<longrightarrow> payload (deleteEntry rt sh r) = r"
    by (auto simp: deleteEntry_def js_or_def field_def split: option.splits)
  have gone: "\<forall>x \<in> set (listOf sh (executeDelete rt st)). field x ''id'' \<noteq> JString i"
    by (auto simp: e(1) strict_eq_def)
  with rid have out: "r \<notin> set (listOf sh (executeDelete rt st))"
    by blast
  from e one pid pID same gone out show ?thesis
    by (simp add: deleteEntry_def)
qed

theorem executeDelete_enqueues_one_DELETE_witness:
  "deleteConfirmation_id deletingBread = Some ''1''
   \<and> deleteConfirmation_sheet deletingBread = Some Products
   \<and> find (\<lambda>x. strict_eq (field x ''id'') (JString ''1'')) (listOf Products deletingBread)
       = Some bread
   \<and> distinct (map qkey (getSyncQueue deletingBread))
   \<and> getSyncQueue (executeDelete sampleRuntime deletingBread)
       = [deleteEntry sampleRuntime Products bread]
   \<and> action (deleteEntry sampleRuntime Products bread) = DELETE
   \<and> payload (deleteEntry sampleRuntime Products bread) = bread
   \<and> products (executeDelete sampleRuntime deletingBread) = []
   \<and> getLocalCollection STORAGE_KEYS_PRODUCTS (executeDelete sampleRuntime deletingBread) = []"
proof -
  have a: "deleteConfirmation_id deletingBread = Some ''1''" "''1'' \<noteq> []"
    "deleteConfirmation_sheet deletingBread = Some Products"
    "products deletingBread = [bread]"
    "getSyncQueue deletingBread = []"
    by (simp_all add: deletingBread_def shop_def initialState_def getSyncQueue_def)
  have f: "find (\<lambda>x. strict_eq (field x ''id'') (JString ''1'')) (listOf Products deletingBread)
       = Some bread"
    by (simp add: a bread_def field_def strict_eq_def)
  have d: "distinct (map qkey (getSyncQueue deletingBread))"
    by (simp add: a)
  have i: "truthy (field bread ''ID'')"
    by (simp add: bread_def field_def)
  note t = executeDelete_enqueues_one_DELETE [OF a(1,2,3) f d, of sampleRuntime]
  from t i have p: "payload (deleteEntry sampleRuntime Products bread) = bread"
    by blast
  from t have q: "getSyncQueue (executeDelete sampleRuntime deletingBread)
       = [deleteEntry sampleRuntime Products bread]"
    by (simp add: a enqueue_def)
  from t have l: "listOf Products (executeDelete sampleRuntime deletingBread) = []"
    "getLocalCollection (storageKeyOf Products) (executeDelete sampleRuntime deletingBread) = []"
    by (simp_all add: a bread_def field_def strict_eq_def)
  from a f d p q l t show ?thesis
    by simp
qed

text \<open>
  C7, as stated. The payload is not always the record as it was: a record with no
  \<open>ID\<close> property is queued with one.
\<close>

theorem executeDelete_payload_gains_ID:
  "deleteConfirmation_id deletingPlainBread = Some ''2''
   \<and> deleteConfirmation_sheet deletingPlainBread = Some Products
   \<and> products deletingPlainBread = [plainBread]
   \<and> getSyncQueue (executeDelete sampleRuntime deletingPlainBread)
       = [deleteEntry sampleRuntime Products plainBread]
   \<and> action (deleteEntry sampleRuntime Products plainBread) = DELETE
   \<and> plainBread ''ID'' = None
   \<and> payload (deleteEntry sampleRuntime Products plainBread) ''ID'' = Some (JString ''2'')
   \<and> payload (deleteEntry sampleRuntime Products plainBread) \<noteq> plainBread"
proof -
  have a: "deleteConfirmation_id deletingPlainBread = Some ''2''" "''2'' \<noteq> []"
    "deleteConfirmation_sheet deletingPlainBread = Some Products"
    "products deletingPlainBread = [plainBread]"
    "getSyncQueue deletingPlainBread = []"
    by (simp_all add: deletingPlainBread_def initialState_def getSyncQueue_def)
  have f: "find (\<lambda>x. strict_eq (field x ''id'') (JString ''2'')) (listOf Products deletingPlainBread)
       = Some plainBread"
    by (simp add: a plainBread_def field_def strict_eq_def)
  have q: "getSyncQueue (executeDelete sampleRuntime deletingPlainBread)
       = [deleteEntry sampleRuntime Products plainBread]"
    by (simp add: executeDelete_found(3) [OF a(1,2,3) f] a enqueue_def)
  have n: "plainBread ''ID'' = None"
    by (simp add: plainBread_def)
  have s: "payload (deleteEntry sampleRuntime Products plainBread) ''ID'' = Some (JString ''2'')"
    by (simp add: deleteEntry_def plainBread_def field_def js_or_def)
  from n s have "payload (deleteEntry sampleRuntime Products plainBread) \<noteq> plainBread"
    by auto
  with a q n s show ?thesis
    by (simp add: deleteEntry_def)
qed

section \<open>Connectivity restored\<close>




end
